theory Spec2Isabelle
  imports Main "HOL-Library.AList" "HOL-Library.Sublist"
begin

section \<open>Tables\<close>

text \<open>
  A cell of a pandas table: a string, a number, a truth value or the missing value.
  The numbers that the program itself produces (presence flags, targets, counts) are
  integers; \<open>1.0\<close> and \<open>1\<close> are the same number in Python and are not told apart.
\<close>

datatype cell = Str string | Num int | Bool bool | NaN

text \<open>
  A table row is a Python dict from column names to cells, kept in insertion order.
  A column that a row does not define reads as \<open>NaN\<close>, as in \<open>pd.DataFrame(list_of_dicts)\<close>.
\<close>

type_synonym row = "(string \<times> cell) list"

definition get :: "row \<Rightarrow> string \<Rightarrow> cell" where
  "get r c = (case map_of r c of Some v \<Rightarrow> v | None \<Rightarrow> NaN)"

record df =
  columns :: "string list"
  rws :: "row list"

text \<open>\<open>pd.DataFrame(records)\<close>: the columns are the keys in order of first appearance.\<close>

definition DataFrame :: "row list \<Rightarrow> df" where
  "DataFrame records =
     \<lparr>columns = rev (remdups (rev (concat (map (map fst) records)))),
      rws = records\<rparr>"

text \<open>\<open>df[c]\<close> as the list of the column's cells.\<close>

definition column :: "df \<Rightarrow> string \<Rightarrow> cell list" where
  "column d c = map (\<lambda>r. get r c) (rws d)"

section \<open>The directory tree\<close>

text \<open>
  A directory is the list of its entries in the order \<open>os.listdir\<close> enumerates them;
  an entry is a plain file or a directory. \<open>os.path.isdir\<close> holds of the directories,
  \<open>os.path.exists\<close> of every entry.
\<close>

datatype node = File | Dir "(string \<times> node) list"

type_synonym listing = "(string \<times> node) list"

fun isdir :: "node \<Rightarrow> bool" where
  "isdir File = False"
| "isdir (Dir es) = True"

fun entries :: "node \<Rightarrow> listing" where
  "entries File = []"
| "entries (Dir es) = es"

definition path_exists :: "listing \<Rightarrow> string \<Rightarrow> bool" where
  "path_exists es name = (name \<in> set (map fst es))"

text \<open>\<open>os.path.join\<close> of a path and an entry name (a name never starts with a slash).\<close>

definition path_join :: "string \<Rightarrow> string \<Rightarrow> string" where
  "path_join a b =
     (if a = [] then b else if last a = CHR ''/'' then a @ b else a @ ''/'' @ b)"

section \<open>String helpers\<close>

text \<open>\<open>s.replace(old, new)\<close> for a non-empty \<open>old\<close>: leftmost, non-overlapping occurrences.\<close>

function replace :: "string \<Rightarrow> string \<Rightarrow> string \<Rightarrow> string" where
  "replace old new [] = []"
| "replace old new (c # cs) =
     (if old \<noteq> [] \<and> prefix old (c # cs)
      then new @ replace old new (drop (length old) (c # cs))
      else c # replace old new cs)"
  by pat_completeness auto
termination
  by (relation "measure (\<lambda>(old, new, s). length s)") (auto simp: Suc_le_eq)

definition startswith :: "string \<Rightarrow> string \<Rightarrow> bool" where
  "startswith s p = prefix p s"

section \<open>The audio inventory scanner\<close>

definition expected_audio_types :: "string list" where
  "expected_audio_types =
     [''breathing-deep.wav'', ''breathing-shallow.wav'',
      ''cough-heavy.wav'', ''cough-shallow.wav'',
      ''counting-normal.wav'', ''counting-fast.wav'',
      ''vowel-a.wav'', ''vowel-e.wav'', ''vowel-o.wav'']"

text \<open>\<open>audio_type.replace('.wav', '').replace('-', '_')\<close>\<close>

definition norm_name :: "string \<Rightarrow> string" where
  "norm_name audio_type = replace ''-'' ''_'' (replace ''.wav'' [] audio_type)"

definition has_name :: "string \<Rightarrow> string" where
  "has_name audio_type = ''has_'' @ norm_name audio_type"

text \<open>
  The loop over the expected types (lines 63 to 70): the dict \<open>audio_files\<close> receives, for
  each type in turn, the path and the flag 1 when the file exists and the flag 0 otherwise.
\<close>

fun audio_files :: "string \<Rightarrow> listing \<Rightarrow> string list \<Rightarrow> row" where
  "audio_files patient_path es [] = []"
| "audio_files patient_path es (audio_type # ts) =
     (if path_exists es audio_type
      then [(norm_name audio_type, Str (path_join patient_path audio_type)),
            (has_name audio_type, Num 1)]
      else [(has_name audio_type, Num 0)])
     @ audio_files patient_path es ts"

text \<open>Python truth of a cell, as \<open>any\<close> and \<open>all\<close> see it (\<open>bool(nan)\<close> is true).\<close>

fun truthy :: "cell \<Rightarrow> bool" where
  "truthy (Str s) = (s \<noteq> [])"
| "truthy (Num n) = (n \<noteq> 0)"
| "truthy (Bool b) = b"
| "truthy NaN = True"

text \<open>\<open>audio_files.get(key, 0)\<close>\<close>

definition dict_get :: "row \<Rightarrow> string \<Rightarrow> cell \<Rightarrow> cell" where
  "dict_get d k dflt = (case map_of d k of Some v \<Rightarrow> v | None \<Rightarrow> dflt)"

text \<open>The dict \<open>audio_record\<close> of lines 75 to 79.\<close>

definition audio_record :: "string \<Rightarrow> string \<Rightarrow> row \<Rightarrow> row" where
  "audio_record patient_id date_folder files =
     [(''patient_id'', Str patient_id), (''date_folder'', Str date_folder)] @ files"

text \<open>The body of the loop over patient folders (lines 51 to 80) for one folder.\<close>

definition scan_patient :: "string \<Rightarrow> string \<Rightarrow> string \<Rightarrow> listing \<Rightarrow> row list" where
  "scan_patient date_path date_folder patient_id es =
     (let patient_path = path_join date_path patient_id;
          files = audio_files patient_path es expected_audio_types
      in if list_ex (\<lambda>t. truthy (dict_get files (has_name t) (Num 0))) expected_audio_types
         then [audio_record patient_id date_folder files]
         else [])"

text \<open>\<open>[f for f in os.listdir(p) if os.path.isdir(os.path.join(p, f))]\<close>\<close>

definition subdirs :: "listing \<Rightarrow> listing" where
  "subdirs es = filter (\<lambda>(f, n). isdir n) es"

text \<open>The loop over the patient folders of one date folder (line 51).\<close>

fun scan_patients :: "string \<Rightarrow> string \<Rightarrow> listing \<Rightarrow> row list" where
  "scan_patients date_path date_folder [] = []"
| "scan_patients date_path date_folder ((patient_id, n) # rest) =
     scan_patient date_path date_folder patient_id (entries n)
     @ scan_patients date_path date_folder rest"

text \<open>The loop over the date folders (line 44); \<open>audio_data\<close> is its result.\<close>

fun scan_dates :: "string \<Rightarrow> listing \<Rightarrow> row list" where
  "scan_dates base [] = []"
| "scan_dates base ((date_folder, n) # rest) =
     scan_patients (path_join base date_folder) date_folder (subdirs (entries n))
     @ scan_dates base rest"

definition audio_data :: "string \<Rightarrow> listing \<Rightarrow> row list" where
  "audio_data base root = scan_dates base (subdirs root)"

section \<open>Errors, output and state\<close>

text \<open>The exceptions that can end a run.\<close>

datatype error =
    KeyError string
  | ValueError
  | MergeError
  | TypeError
  | AttributeError
  | FileNotFoundError
  | OSError string
  | UnicodeEncodeError

text \<open>
  A printed line: its fixed text and the values interpolated into it. A printed
  \<open>value_counts()\<close>, sum or mean carries the cells it is computed from.
\<close>

datatype out = Print string "cell list"

text \<open>
  What the program reads: the table that \<open>pd.read_csv\<close> parses from the metadata path
  and the listing of the audio base directory; \<open>None\<close> when the path does not exist.

  What the world does when the program writes: \<open>os.makedirs\<close> of a directory either
  succeeds (\<open>None\<close>) or raises an error after it has made some directories;
  \<open>to_csv\<close> of some bytes to a path either succeeds or raises an error, and then the
  file is untouched (\<open>None\<close>) or holds what was written before the error.
\<close>

record env =
  csv_file :: "df option"
  audio_dir :: "listing option"
  makedirs_raises :: "string \<Rightarrow> (error \<times> string set) option"
  to_csv_raises :: "string \<Rightarrow> string \<Rightarrow> (error \<times> string option) option"

text \<open>
  The merger object (its two paths and its two cached tables) together with what the
  program writes: the printed lines, the directories made and the files written, by path.
\<close>

record state =
  metadata_csv_path :: string
  audio_base_path :: string
  metadata_df :: "df option"
  audio_paths_df :: "df option"
  stdout :: "out list"
  dirs :: "string set"
  files :: "string \<rightharpoonup> string"

definition print :: "out list \<Rightarrow> state \<Rightarrow> state" where
  "print ls s = s\<lparr>stdout := stdout s @ ls\<rparr>"

text \<open>\<open>CoswaraDataMerger(metadata_csv_path, audio_base_path)\<close>\<close>

definition init :: "string \<Rightarrow> string \<Rightarrow> state \<Rightarrow> state" where
  "init mpath apath s =
     s\<lparr>metadata_csv_path := mpath, audio_base_path := apath,
       metadata_df := None, audio_paths_df := None\<rparr>"

section \<open>Loading and scanning\<close>

definition load_metadata :: "env \<Rightarrow> state \<Rightarrow> (error + df) \<times> state" where
  "load_metadata e s =
     (let s1 = print [Print ''Loading metadata CSV...'' []] s
      in case csv_file e of
           None \<Rightarrow> (Inl FileNotFoundError, s1)
         | Some d \<Rightarrow>
             (let s2 = print
                    ([Print ''Metadata shape: ''
                        [Num (int (length (rws d))), Num (int (length (columns d)))],
                      Print ''Columns: '' (map Str (columns d))]
                     @ (if ''covid_status'' \<in> set (columns d)
                        then [Print ''COVID status distribution:'' [],
                              Print ''value_counts'' (column d ''covid_status'')]
                        else [])
                     @ (if ''id'' \<in> set (columns d)
                        then [Print ''Sample patient IDs: '' (take 5 (column d ''id''))]
                        else []))
                    (s1\<lparr>metadata_df := Some d\<rparr>)
              in (Inr d, s2)))"

text \<open>
  \<open>find_audio_files\<close>. The table is stored in the object at line 82; the sample print of
  line 86 reads its \<open>patient_id\<close> column, which a table built from no record does not have.
\<close>

definition find_audio_files :: "env \<Rightarrow> state \<Rightarrow> (error + df) \<times> state" where
  "find_audio_files e s =
     (let s1 = print [Print ''Scanning for audio files...'' []] s
      in case audio_dir e of
           None \<Rightarrow> (Inl FileNotFoundError, s1)
         | Some root \<Rightarrow>
             (let date_folders = subdirs root;
                  s2 = print [Print ''Found date folders'' [Num (int (length date_folders))]] s1;
                  d = DataFrame (scan_dates (audio_base_path s) date_folders);
                  s3 = print [Print ''Found patients with audio files''
                                [Num (int (length (rws d)))]]
                         (s2\<lparr>audio_paths_df := Some d\<rparr>)
              in if ''patient_id'' \<in> set (columns d)
                 then (Inr d,
                       print [Print ''Sample audio patient IDs: ''
                                (take 5 (column d ''patient_id''))] s3)
                 else (Inl (KeyError ''patient_id''), s3)))"

section \<open>The join\<close>

fun is_Str :: "cell \<Rightarrow> bool" where
  "is_Str (Str s) = True"
| "is_Str c = False"

fun is_number :: "cell \<Rightarrow> bool" where
  "is_number (Num n) = True"
| "is_number NaN = True"
| "is_number c = False"

text \<open>
  The dtype of a key column as far as \<open>pd.merge\<close> looks at it: numeric when the column is
  not empty and holds numbers and missing values only, string-like when it holds a string.
\<close>

definition numeric_dtype :: "cell list \<Rightarrow> bool" where
  "numeric_dtype cs = (cs \<noteq> [] \<and> list_all is_number cs)"

definition string_dtype :: "cell list \<Rightarrow> bool" where
  "string_dtype cs = list_ex is_Str cs"

text \<open>
  \<open>pd.merge(left, right, left_on=..., right_on=..., how='inner')\<close>, for tables whose column
  names are distinct:
  \<^item> a key column that is missing raises \<open>KeyError\<close>; a numeric key column against a
    string one raises \<open>ValueError\<close>;
  \<^item> when both keys have the same name the result keeps one key column; every other
    name that occurs in both tables gets the suffix \<open>_x\<close> on the left and \<open>_y\<close> on the
    right, and a column name that occurs twice afterwards raises \<open>MergeError\<close>;
  \<^item> the result pairs each left row, in order, with the right rows of equal key, in order.
\<close>

definition right_columns :: "df \<Rightarrow> df \<Rightarrow> string \<Rightarrow> string \<Rightarrow> string list" where
  "right_columns left right left_on right_on =
     (if left_on = right_on then removeAll right_on (columns right) else columns right)"

definition overlap :: "df \<Rightarrow> df \<Rightarrow> string \<Rightarrow> string \<Rightarrow> string set" where
  "overlap left right left_on right_on =
     (if left_on = right_on
      then (set (columns left) \<inter> set (columns right)) - {left_on}
      else set (columns left) \<inter> set (columns right))"

definition suffixed :: "string set \<Rightarrow> string \<Rightarrow> string \<Rightarrow> string" where
  "suffixed ov sfx c = (if c \<in> ov then c @ sfx else c)"

definition merged_columns :: "df \<Rightarrow> df \<Rightarrow> string \<Rightarrow> string \<Rightarrow> string list" where
  "merged_columns left right left_on right_on =
     (let ov = overlap left right left_on right_on
      in map (suffixed ov ''_x'') (columns left)
         @ map (suffixed ov ''_y'') (right_columns left right left_on right_on))"

definition merge_row :: "df \<Rightarrow> df \<Rightarrow> string \<Rightarrow> string \<Rightarrow> row \<Rightarrow> row \<Rightarrow> row" where
  "merge_row left right left_on right_on l r =
     (let ov = overlap left right left_on right_on
      in map (\<lambda>c. (suffixed ov ''_x'' c, get l c)) (columns left)
         @ map (\<lambda>c. (suffixed ov ''_y'' c, get r c))
             (right_columns left right left_on right_on))"

definition inner_join :: "df \<Rightarrow> df \<Rightarrow> string \<Rightarrow> string \<Rightarrow> row list" where
  "inner_join left right left_on right_on =
     concat (map (\<lambda>l. map (merge_row left right left_on right_on l)
                        (filter (\<lambda>r. get l left_on = get r right_on) (rws right)))
                 (rws left))"

definition pd_merge :: "df \<Rightarrow> df \<Rightarrow> string \<Rightarrow> string \<Rightarrow> error + df" where
  "pd_merge left right left_on right_on =
     (if left_on \<notin> set (columns left) then Inl (KeyError left_on)
      else if right_on \<notin> set (columns right) then Inl (KeyError right_on)
      else if (numeric_dtype (column left left_on) \<and> string_dtype (column right right_on))
            \<or> (string_dtype (column left left_on) \<and> numeric_dtype (column right right_on))
      then Inl ValueError
      else if \<not> distinct (merged_columns left right left_on right_on) then Inl MergeError
      else Inr \<lparr>columns = merged_columns left right left_on right_on,
                rws = inner_join left right left_on right_on\<rparr>)"

text \<open>Lines 97 to 128 of \<open>merge_datasets\<close>, once both tables are in the object.\<close>

definition patient_id_columns :: "string list" where
  "patient_id_columns = [''id'', ''d'', ''patient_id'']"

definition merge_loaded :: "df \<Rightarrow> df \<Rightarrow> state \<Rightarrow> (error + df option) \<times> state" where
  "merge_loaded meta audio s =
     (let s1 = print [Print ''Merging datasets...'' []] s
      in case find (\<lambda>col. col \<in> set (columns meta)) patient_id_columns of
           None \<Rightarrow>
             (Inr None,
              print [Print ''Error: Could not find patient ID column in metadata.'' [],
                     Print ''Available columns: '' (map Str (columns meta))] s1)
         | Some left_column \<Rightarrow>
             (let s2 = print [Print ''Using as patient ID column from metadata''
                                [Str left_column]] s1
              in case pd_merge meta audio left_column ''patient_id'' of
                   Inl err \<Rightarrow> (Inl err, s2)
                 | Inr merged_df \<Rightarrow>
                     (Inr (Some merged_df),
                      print ([Print ''Merged dataset shape: ''
                                [Num (int (length (rws merged_df))),
                                 Num (int (length (columns merged_df)))]]
                             @ (if ''covid_status'' \<in> set (columns merged_df)
                                then [Print ''COVID status in merged data:'' [],
                                      Print ''value_counts''
                                        (column merged_df ''covid_status'')]
                                else [])) s2)))"

text \<open>
  Lines 92 to 95 of \<open>merge_datasets\<close>: each table is loaded when the object does not
  hold it yet; an exception of a loader ends the call. The tables that the rest of the
  method works on are read back from the object.
\<close>

definition load_tables :: "env \<Rightarrow> state \<Rightarrow> (error + df \<times> df) \<times> state" where
  "load_tables e s =
     (case (case metadata_df s of
              None \<Rightarrow> load_metadata e s
            | Some d \<Rightarrow> (Inr d, s)) of
        (Inl err, s1) \<Rightarrow> (Inl err, s1)
      | (Inr _, s1) \<Rightarrow>
          (case (case audio_paths_df s1 of
                   None \<Rightarrow> find_audio_files e s1
                 | Some d \<Rightarrow> (Inr d, s1)) of
             (Inl err, s2) \<Rightarrow> (Inl err, s2)
           | (Inr _, s2) \<Rightarrow>
               (case (metadata_df s2, audio_paths_df s2) of
                  (Some meta, Some audio) \<Rightarrow> (Inr (meta, audio), s2)
                | _ \<Rightarrow> (Inl AttributeError, s2))))"

definition merge_datasets :: "env \<Rightarrow> state \<Rightarrow> (error + df option) \<times> state" where
  "merge_datasets e s =
     (case load_tables e s of
        (Inl err, s2) \<Rightarrow> (Inl err, s2)
      | (Inr (meta, audio), s2) \<Rightarrow> merge_loaded meta audio s2)"

section \<open>Writing a table\<close>

function digits :: "nat \<Rightarrow> string" where
  "digits n = (if n < 10 then [''0123456789'' ! n]
               else digits (n div 10) @ [''0123456789'' ! (n mod 10)])"
  by pat_completeness auto
termination
  by (relation "measure id") auto

declare digits.simps [simp del]

definition show_int :: "int \<Rightarrow> string" where
  "show_int i = (if i < 0 then ''-'' @ digits (nat (- i)) else digits (nat i))"

fun render :: "cell \<Rightarrow> string" where
  "render (Str s) = s"
| "render (Num n) = show_int n"
| "render (Bool b) = (if b then ''True'' else ''False'')"
| "render NaN = []"

text \<open>
  A field is quoted when it holds the delimiter, a quote or a line break, and a quote
  inside it is doubled (\<open>csv.QUOTE_MINIMAL\<close>).
\<close>

definition csv_field :: "string \<Rightarrow> string" where
  "csv_field f =
     (if list_ex (\<lambda>c. c \<in> {CHR '','', CHR 0x22, CHR 0x0A, CHR 0x0D}) f
      then [CHR 0x22] @ concat (map (\<lambda>c. if c = CHR 0x22 then [c, c] else [c]) f)
           @ [CHR 0x22]
      else f)"

fun join_fields :: "string list \<Rightarrow> string" where
  "join_fields [] = []"
| "join_fields [f] = f"
| "join_fields (f # g # fs) = f @ '','' @ join_fields (g # fs)"

definition csv_line :: "string list \<Rightarrow> string" where
  "csv_line fs = join_fields (map csv_field fs) @ [CHR 0x0A]"

text \<open>
  \<open>df.to_csv(path, index=False)\<close>: the header line, then one line per row. A number is
  written as an integer; pandas writes the numbers of a float column, such as a target
  column that held a missing value, with a decimal point (\<open>1.0\<close>), which the cells of this
  model do not tell apart.
\<close>

definition to_csv :: "df \<Rightarrow> string" where
  "to_csv d =
     csv_line (columns d)
     @ concat (map (\<lambda>r. csv_line (map (\<lambda>c. render (get r c)) (columns d))) (rws d))"

text \<open>\<open>os.path.dirname\<close>\<close>

definition dirname :: "string \<Rightarrow> string" where
  "dirname p =
     (let head = rev (dropWhile (\<lambda>c. c \<noteq> CHR ''/'') (rev p))
      in if head \<noteq> [] \<and> \<not> list_all (\<lambda>c. c = CHR ''/'') head
         then rev (dropWhile (\<lambda>c. c = CHR ''/'') (rev head))
         else head)"

section \<open>The labeler\<close>

definition covid_mapping :: "(string \<times> int) list" where
  "covid_mapping =
     [(''positive_mild'', 1),
      (''positive_moderate'', 1),
      (''positive_asymp'', 1),
      (''healthy'', 0),
      (''no_resp_illness_exposed'', 0),
      (''recovered_full'', 0)]"

text \<open>\<open>Series.map(covid_mapping)\<close> on one cell: a value that is no key of the dict gives \<open>NaN\<close>.\<close>

fun map_status :: "cell \<Rightarrow> cell" where
  "map_status (Str s) = (case map_of covid_mapping s of Some v \<Rightarrow> Num v | None \<Rightarrow> NaN)"
| "map_status c = NaN"

text \<open>
  \<open>df[c] = values\<close>, the values given row by row: an existing column is overwritten in
  place, a new one is appended.
\<close>

definition setitem :: "df \<Rightarrow> string \<Rightarrow> (row \<Rightarrow> cell) \<Rightarrow> df" where
  "setitem d c f =
     \<lparr>columns = (if c \<in> set (columns d) then columns d else columns d @ [c]),
      rws = map (\<lambda>r. AList.update c (f r) r) (rws d)\<rparr>"

text \<open>\<open>df[df['target'].notna()]\<close>\<close>

definition notna_target :: "df \<Rightarrow> df" where
  "notna_target d = d\<lparr>rws := filter (\<lambda>r. get r ''target'' \<noteq> NaN) (rws d)\<rparr>"

text \<open>\<open>df.empty\<close>\<close>

definition df_empty :: "df \<Rightarrow> bool" where
  "df_empty d = (rws d = [] \<or> columns d = [])"

text \<open>Lines 139 to 167: the target column.\<close>

definition create_target :: "df \<Rightarrow> state \<Rightarrow> df \<times> state" where
  "create_target merged_df s =
     (if ''covid_status'' \<in> set (columns merged_df)
      then (let s1 = print [Print ''Creating target variable...'' []] s;
                d1 = setitem merged_df ''target'' (\<lambda>r. map_status (get r ''covid_status''));
                s2 = print [Print ''Records before filtering unknown status: ''
                              [Num (int (length (rws d1)))]] s1;
                d2 = notna_target d1;
                s3 = print [Print ''Records after filtering: '' [Num (int (length (rws d2)))],
                            Print ''Target distribution:'' [],
                            Print ''value_counts'' (column d2 ''target''),
                            Print ''COVID positive: '' (column d2 ''target''),
                            Print ''COVID negative: '' (column d2 ''target'')] s2
            in (d2, s3))
      else (setitem merged_df ''target'' (\<lambda>r. Num 0),
            print [Print ''Warning: 'covid_status' column not found. Target variable not created.''
                     []] s))"

text \<open>
  Lines 169 to 174: the completeness columns. \<open>all(axis=1)\<close> is the conjunction of the
  truth values of the selected cells of a row. \<open>sum(axis=1)\<close> adds them, a truth value
  counting as 0 or 1 and a missing value being skipped, and raises \<open>TypeError\<close> on a string;
  the sum is a 64-bit integer and wraps around.
\<close>

fun number :: "cell \<Rightarrow> int" where
  "number (Num n) = n"
| "number (Bool b) = (if b then 1 else 0)"
| "number c = 0"

definition row_all :: "string list \<Rightarrow> row \<Rightarrow> cell" where
  "row_all cs r = Bool (list_all (\<lambda>c. truthy (get r c)) cs)"

definition int64 :: "int \<Rightarrow> int" where
  "int64 i = (i + 2 ^ 63) mod 2 ^ 64 - 2 ^ 63"

definition row_sum :: "string list \<Rightarrow> row \<Rightarrow> cell" where
  "row_sum cs r = Num (int64 (sum_list (map (\<lambda>c. number (get r c)) cs)))"

definition summable :: "string list \<Rightarrow> df \<Rightarrow> bool" where
  "summable cs d = list_all (\<lambda>r. list_all (\<lambda>c. \<not> is_Str (get r c)) cs) (rws d)"

definition derive_features :: "df \<Rightarrow> state \<Rightarrow> (error + df) \<times> state" where
  "derive_features merged_df s =
     (let audio_has_columns = filter (\<lambda>col. startswith col ''has_'') (columns merged_df)
      in if audio_has_columns \<noteq> []
         then (let d1 = setitem merged_df ''has_all_audio'' (row_all audio_has_columns)
               in if summable audio_has_columns d1
                  then (let d2 = setitem d1 ''num_audio_types'' (row_sum audio_has_columns)
                        in (Inr d2,
                            print [Print ''Average audio types per patient: ''
                                     (column d2 ''num_audio_types'')] s))
                  else (Inl TypeError, s))
         else (Inr merged_df, s))"

text \<open>
  Lines 176 to 180: the output file. An output path that is \<open>None\<close> or empty is false.
  \<open>os.makedirs\<close> and \<open>to_csv\<close> can raise; what is on disk by then stays there.
\<close>

definition save :: "env \<Rightarrow> string option \<Rightarrow> df \<Rightarrow> state \<Rightarrow> error option \<times> state" where
  "save e output_path d s =
     (case output_path of
        None \<Rightarrow> (None, s)
      | Some p \<Rightarrow>
          if p = [] then (None, s)
          else (let dir = (if dirname p \<noteq> [] then dirname p else ''.'')
                in case makedirs_raises e dir of
                     Some (err, made) \<Rightarrow> (Some err, s\<lparr>dirs := dirs s \<union> made\<rparr>)
                   | None \<Rightarrow>
                       (let s1 = s\<lparr>dirs := insert dir (dirs s)\<rparr>
                        in case to_csv_raises e p (to_csv d) of
                             Some (err, left) \<Rightarrow>
                               (Some err,
                                case left of
                                  None \<Rightarrow> s1
                                | Some bytes \<Rightarrow> s1\<lparr>files := (files s1)(p \<mapsto> bytes)\<rparr>)
                           | None \<Rightarrow>
                               (None,
                                print [Print ''Final dataset saved to: '' [Str p]]
                                  (s1\<lparr>files := (files s1)(p \<mapsto> to_csv d)\<rparr>)))))"

definition create_final_dataset ::
  "env \<Rightarrow> string option \<Rightarrow> state \<Rightarrow> (error + df option) \<times> state" where
  "create_final_dataset e output_path s =
     (case merge_datasets e s of
        (Inl err, s1) \<Rightarrow> (Inl err, s1)
      | (Inr None, s1) \<Rightarrow> (Inr None, print [Print ''Error: No data to process'' []] s1)
      | (Inr (Some merged_df), s1) \<Rightarrow>
          if df_empty merged_df
          then (Inr None, print [Print ''Error: No data to process'' []] s1)
          else (let (d1, s2) = create_target merged_df s1
                in case derive_features d1 s2 of
                     (Inl err, s3) \<Rightarrow> (Inl err, s3)
                   | (Inr d2, s3) \<Rightarrow>
                       (case save e output_path d2 s3 of
                          (Some err, s4) \<Rightarrow> (Inl err, s4)
                        | (None, s4) \<Rightarrow> (Inr (Some d2), s4))))"

section \<open>The entry point\<close>

definition METADATA_CSV :: string where
  "METADATA_CSV = ''combined_data.csv''"

definition AUDIO_BASE_PATH :: string where
  "AUDIO_BASE_PATH = ''Extracted_data''"

definition OUTPUT_PATH :: string where
  "OUTPUT_PATH = ''merged_coswara_dataset.csv''"

text \<open>
  \<open>main\<close> of \<open>run_merger.py\<close>; the result is the exception that ended the run, if one did.
\<close>

definition main :: "env \<Rightarrow> state \<Rightarrow> error option \<times> state" where
  "main e s =
     (let s1 = print [Print ''=== Coswara Data Merger ==='' [],
                      Print ''Metadata CSV: '' [Str METADATA_CSV],
                      Print ''Audio path: '' [Str AUDIO_BASE_PATH],
                      Print ''Output: '' [Str OUTPUT_PATH],
                      Print [] []] s
      in if csv_file e = None
         then (None, print [Print ''Error: not found!'' [Str METADATA_CSV]] s1)
         else if audio_dir e = None
         then (None, print [Print ''Error: not found!'' [Str AUDIO_BASE_PATH]] s1)
         else (case create_final_dataset e (Some OUTPUT_PATH)
                      (init METADATA_CSV AUDIO_BASE_PATH s1) of
                 (Inl err, s2) \<Rightarrow> (Some err, s2)
               | (Inr None, s2) \<Rightarrow> (None, print [Print ''=== Process Failed ==='' []] s2)
               | (Inr (Some final_dataset), s2) \<Rightarrow>
                   (None,
                    print ([Print ''=== Process Complete ==='' [],
                            Print ''Final dataset created with patients''
                              [Num (int (length (rws final_dataset)))]]
                           @ (if ''target'' \<in> set (columns final_dataset)
                              then [Print ''COVID positive: '' (column final_dataset ''target''),
                                    Print ''COVID negative: '' (column final_dataset ''target'')]
                              else [])) s2)))"

section \<open>Notions used in the statements\<close>

text \<open>A status cell that is no key of \<open>covid_mapping\<close>.\<close>

definition unmapped :: "cell \<Rightarrow> bool" where
  "unmapped c = (case c of Str s \<Rightarrow> s \<notin> set (map fst covid_mapping) | _ \<Rightarrow> True)"

text \<open>\<open>len(final_dataset)\<close> of a result, when the result is a table.\<close>

definition final_count :: "error + df option \<Rightarrow> nat option" where
  "final_count r = (case r of Inr (Some d) \<Rightarrow> Some (length (rws d)) | _ \<Rightarrow> None)"

text \<open>The table of a result; the table without columns and rows when there is none.\<close>

definition table_of :: "error + df option \<Rightarrow> df" where
  "table_of r = (case r of Inr (Some d) \<Rightarrow> d | _ \<Rightarrow> \<lparr>columns = [], rws = []\<rparr>)"

text \<open>A fresh merger in a world where nothing has been printed or written yet.\<close>

definition state0 :: state where
  "state0 =
     \<lparr>metadata_csv_path = ''combined_data.csv'', audio_base_path = ''Extracted_data'',
      metadata_df = None, audio_paths_df = None, stdout = [], dirs = {},
      files = Map.empty\<rparr>"

text \<open>Two states whose merger objects agree in what the pipeline reads from them.\<close>

definition same_merger :: "state \<Rightarrow> state \<Rightarrow> bool" where
  "same_merger s t \<longleftrightarrow> audio_base_path s = audio_base_path t
     \<and> metadata_df s = metadata_df t \<and> audio_paths_df s = audio_paths_df t"

text \<open>
  The bytes that a run of \<open>main\<close> on the inputs \<open>e\<close> writes to the output path, computed
  in the world \<open>state0\<close>; \<open>None\<close> when it writes nothing.
\<close>

definition written :: "env \<Rightarrow> string option" where
  "written e = files (snd (main e state0)) OUTPUT_PATH"

text \<open>A name that the CSV writer leaves unquoted: no comma, quote or line break in it.\<close>

definition plain :: "string \<Rightarrow> bool" where
  "plain f = list_all (\<lambda>c. c \<noteq> CHR '','' \<and> c \<noteq> CHR 0x22 \<and> c \<noteq> CHR 0x0A \<and> c \<noteq> CHR 0x0D) f"

text \<open>The names joined by commas, and a line feed: a header line as it stands in a file.\<close>

definition header_line :: "string list \<Rightarrow> string" where
  "header_line cs = concat (map (\<lambda>c. c @ '','') (butlast cs)) @ last cs @ [CHR 0x0A]"

text \<open>
  The columns of the final table, from those of the join: \<open>target\<close> is added when the
  join has no column of that name, and when a name then starts with \<open>has_\<close>, so are
  \<open>has_all_audio\<close> and \<open>num_audio_types\<close>, each at the end.
\<close>

definition with_column :: "string list \<Rightarrow> string \<Rightarrow> string list" where
  "with_column cs c = (if c \<in> set cs then cs else cs @ [c])"

definition final_columns :: "string list \<Rightarrow> string list" where
  "final_columns cs =
     (let t = with_column cs ''target''
      in if list_ex (\<lambda>c. startswith c ''has_'') t
         then with_column (with_column t ''has_all_audio'') ''num_audio_types''
         else t)"



section \<open>Example inputs\<close>

text \<open>
  One date folder with the patients A and B, each with \<open>cough-heavy.wav\<close> only, a patient
  folder without any expected recording, and plain files at both levels.
\<close>

definition tree_ab :: listing where
  "tree_ab =
     [(''20200413'',
       Dir [(''A'', Dir [(''cough-heavy.wav'', File)]),
            (''B'', Dir [(''cough-heavy.wav'', File)]),
            (''Z'', Dir [(''notes.txt'', File)]),
            (''index.txt'', File)]),
      (''README'', File)]"

text \<open>A metadata table without any of the three identifier columns.\<close>

definition meta_noid :: df where
  "meta_noid =
     \<lparr>columns = [''name'', ''covid_status''],
      rws = [[(''name'', Str ''A''), (''covid_status'', Str ''healthy'')]]\<rparr>"

definition env_noid :: env where
  "env_noid = \<lparr>csv_file = Some meta_noid, audio_dir = Some tree_ab,
      makedirs_raises = (\<lambda>dir. None), to_csv_raises = (\<lambda>path bytes. None)\<rparr>"

text \<open>
  One metadata row for patient A, whose folder occurs under two date folders.
\<close>

definition meta_fan :: df where
  "meta_fan =
     \<lparr>columns = [''id'', ''covid_status''],
      rws = [[(''id'', Str ''A''), (''covid_status'', Str ''healthy'')]]\<rparr>"

definition tree_fan :: listing where
  "tree_fan =
     [(''20200413'', Dir [(''A'', Dir [(''cough-heavy.wav'', File)])]),
      (''20200415'', Dir [(''A'', Dir [(''vowel-a.wav'', File)])])]"

definition env_fan :: env where
  "env_fan = \<lparr>csv_file = Some meta_fan, audio_dir = Some tree_fan,
      makedirs_raises = (\<lambda>dir. None), to_csv_raises = (\<lambda>path bytes. None)\<rparr>"

definition audio_fan :: df where
  "audio_fan = DataFrame (audio_data ''Extracted_data'' tree_fan)"

text \<open>A metadata table without a status column.\<close>

definition meta_nostatus :: df where
  "meta_nostatus =
     \<lparr>columns = [''id'', ''age''],
      rws = [[(''id'', Str ''A''), (''age'', Num 30)],
             [(''id'', Str ''B''), (''age'', Num 41)]]\<rparr>"

definition env_nostatus :: env where
  "env_nostatus = \<lparr>csv_file = Some meta_nostatus, audio_dir = Some tree_ab,
      makedirs_raises = (\<lambda>dir. None), to_csv_raises = (\<lambda>path bytes. None)\<rparr>"

text \<open>
  The scenario of the specification: patients A, B and C, healthy, positive and under
  validation; the inventory has A and B.
\<close>

definition meta_abc :: df where
  "meta_abc =
     \<lparr>columns = [''id'', ''covid_status''],
      rws = [[(''id'', Str ''A''), (''covid_status'', Str ''healthy'')],
             [(''id'', Str ''B''), (''covid_status'', Str ''positive_mild'')],
             [(''id'', Str ''C''), (''covid_status'', Str ''under_validation'')]]\<rparr>"

definition env_abc :: env where
  "env_abc = \<lparr>csv_file = Some meta_abc, audio_dir = Some tree_ab,
      makedirs_raises = (\<lambda>dir. None), to_csv_raises = (\<lambda>path bytes. None)\<rparr>"

text \<open>The scenario again, in a world where the path \<open>out/\<close> cannot be written as a file.\<close>

definition env_outdir :: env where
  "env_outdir =
     \<lparr>csv_file = Some meta_abc, audio_dir = Some tree_ab,
      makedirs_raises = (\<lambda>dir. None),
      to_csv_raises = (\<lambda>path bytes. if path = ''out/''
                                    then Some (OSError ''IsADirectoryError'', None)
                                    else None)\<rparr>"

text \<open>Every patient has a status that is no key of the mapping.\<close>

definition meta_unmapped :: df where
  "meta_unmapped =
     \<lparr>columns = [''id'', ''covid_status''],
      rws = [[(''id'', Str ''A''), (''covid_status'', Str ''under_validation'')],
             [(''id'', Str ''B''), (''covid_status'', Str ''resp_illness_not_identified'')]]\<rparr>"

definition env_unmapped :: env where
  "env_unmapped = \<lparr>csv_file = Some meta_unmapped, audio_dir = Some tree_ab,
      makedirs_raises = (\<lambda>dir. None), to_csv_raises = (\<lambda>path bytes. None)\<rparr>"

text \<open>
  A world that an earlier run has left behind: lines on the screen, a stale output
  file, and another merger object.
\<close>

definition state_used :: state where
  "state_used =
     \<lparr>metadata_csv_path = ''old.csv'', audio_base_path = ''elsewhere'',
      metadata_df = Some meta_noid, audio_paths_df = None,
      stdout = [Print ''=== Process Failed ==='' []], dirs = {''.''},
      files = [OUTPUT_PATH \<mapsto> ''stale'']\<rparr>"



section \<open>What the steps leave alone\<close>

lemma print_fields [simp]:
  "files (print ls s) = files s"
  "dirs (print ls s) = dirs s"
  "metadata_df (print ls s) = metadata_df s"
  "audio_paths_df (print ls s) = audio_paths_df s"
  "audio_base_path (print ls s) = audio_base_path s"
  "stdout (print ls s) = stdout s @ ls"
  by (simp_all add: print_def)

lemma load_metadata_frame:
  "files (snd (load_metadata e s)) = files s \<and> dirs (snd (load_metadata e s)) = dirs s
   \<and> audio_paths_df (snd (load_metadata e s)) = audio_paths_df s
   \<and> audio_base_path (snd (load_metadata e s)) = audio_base_path s"
  by (simp add: load_metadata_def Let_def split: option.splits)

lemma find_audio_files_frame:
  "files (snd (find_audio_files e s)) = files s \<and> dirs (snd (find_audio_files e s)) = dirs s
   \<and> metadata_df (snd (find_audio_files e s)) = metadata_df s"
  by (simp add: find_audio_files_def Let_def split: option.splits)

lemma load_tables_frame:
  "files (snd (load_tables e s)) = files s \<and> dirs (snd (load_tables e s)) = dirs s"
proof -
  obtain r1 s1 where a:
    "(case metadata_df s of None \<Rightarrow> load_metadata e s | Some d \<Rightarrow> (Inr d, s)) = (r1, s1)"
    by force
  have f1: "files s1 = files s \<and> dirs s1 = dirs s"
    using a load_metadata_frame [of e s] by (auto split: option.splits)
  obtain r2 s2 where b:
    "(case audio_paths_df s1 of None \<Rightarrow> find_audio_files e s1 | Some d \<Rightarrow> (Inr d, s1))
       = (r2, s2)"
    by force
  have f2: "files s2 = files s1 \<and> dirs s2 = dirs s1"
    using b find_audio_files_frame [of e s1] by (auto split: option.splits)
  show ?thesis
    using a b f1 f2 by (simp add: load_tables_def split: sum.splits option.splits)
qed

lemma merge_loaded_frame:
  "files (snd (merge_loaded meta audio s)) = files s
   \<and> dirs (snd (merge_loaded meta audio s)) = dirs s"
  by (simp add: merge_loaded_def Let_def split: option.splits sum.splits)

lemma merge_datasets_frame:
  "files (snd (merge_datasets e s)) = files s \<and> dirs (snd (merge_datasets e s)) = dirs s"
proof -
  obtain r s2 where a: "load_tables e s = (r, s2)" by force
  have f: "files s2 = files s \<and> dirs s2 = dirs s"
    using a load_tables_frame [of e s] by simp
  show ?thesis
    using a f merge_loaded_frame
    by (simp add: merge_datasets_def split: sum.splits prod.splits)
qed

lemma create_target_frame:
  "files (snd (create_target d s)) = files s \<and> dirs (snd (create_target d s)) = dirs s"
  by (simp add: create_target_def Let_def)

lemma derive_features_frame:
  "files (snd (derive_features d s)) = files s \<and> dirs (snd (derive_features d s)) = dirs s"
  by (simp add: derive_features_def Let_def)

lemma create_final_dataset_cases:
  "create_final_dataset e out s =
     (case merge_datasets e s of
        (Inl err, s1) \<Rightarrow> (Inl err, s1)
      | (Inr None, s1) \<Rightarrow> (Inr None, print [Print ''Error: No data to process'' []] s1)
      | (Inr (Some merged_df), s1) \<Rightarrow>
          if df_empty merged_df
          then (Inr None, print [Print ''Error: No data to process'' []] s1)
          else (case derive_features (fst (create_target merged_df s1))
                       (snd (create_target merged_df s1)) of
                  (Inl err, s3) \<Rightarrow> (Inl err, s3)
                | (Inr d2, s3) \<Rightarrow>
                    (case save e out d2 s3 of
                       (Some err, s4) \<Rightarrow> (Inl err, s4)
                     | (None, s4) \<Rightarrow> (Inr (Some d2), s4))))"
  by (simp add: create_final_dataset_def split: prod.splits sum.splits option.splits)

section \<open>The identifier column\<close>

text \<open>
  Claim C5. Once \<open>merge_datasets\<close> holds the two tables, it joins on the first of the
  columns \<open>id\<close>, \<open>d\<close> and \<open>patient_id\<close>, tried in this order, that the metadata table has.
  When the metadata table has none of the three, it returns no result and the lines it
  prints are the error message and the list of the available columns.
\<close>

theorem merge_datasets_id_column:
  assumes "fst (load_tables e s) = Inr (meta, audio)"
  shows "fst (merge_datasets e s) =
           (if ''id'' \<in> set (columns meta)
            then (case pd_merge meta audio ''id'' ''patient_id'' of
                    Inl err \<Rightarrow> Inl err | Inr m \<Rightarrow> Inr (Some m))
            else if ''d'' \<in> set (columns meta)
            then (case pd_merge meta audio ''d'' ''patient_id'' of
                    Inl err \<Rightarrow> Inl err | Inr m \<Rightarrow> Inr (Some m))
            else if ''patient_id'' \<in> set (columns meta)
            then (case pd_merge meta audio ''patient_id'' ''patient_id'' of
                    Inl err \<Rightarrow> Inl err | Inr m \<Rightarrow> Inr (Some m))
            else Inr None)
         \<and> (''id'' \<notin> set (columns meta) \<and> ''d'' \<notin> set (columns meta)
              \<and> ''patient_id'' \<notin> set (columns meta) \<longrightarrow>
            stdout (snd (merge_datasets e s)) =
              stdout (snd (load_tables e s))
              @ [Print ''Merging datasets...'' [],
                 Print ''Error: Could not find patient ID column in metadata.'' [],
                 Print ''Available columns: '' (map Str (columns meta))])"
proof -
  obtain s2 where l: "load_tables e s = (Inr (meta, audio), s2)"
    using assms by (cases "load_tables e s") simp
  have m: "merge_datasets e s = merge_loaded meta audio s2"
    using l by (simp add: merge_datasets_def)
  show ?thesis
    unfolding m using l
    by (simp add: merge_loaded_def patient_id_columns_def Let_def split: sum.splits)
qed

theorem merge_datasets_id_column_witness:
  "fst (load_tables env_noid state0)
     = Inr (meta_noid, DataFrame (audio_data ''Extracted_data'' tree_ab))
   \<and> fst (merge_datasets env_noid state0) = Inr None
   \<and> stdout (snd (merge_datasets env_noid state0)) =
       stdout (snd (load_tables env_noid state0))
       @ [Print ''Merging datasets...'' [],
          Print ''Error: Could not find patient ID column in metadata.'' [],
          Print ''Available columns: '' [Str ''name'', Str ''covid_status'']]"
proof -
  have h: "fst (load_tables env_noid state0)
             = Inr (meta_noid, DataFrame (audio_data ''Extracted_data'' tree_ab))"
    by code_simp
  have c: "columns meta_noid = [''name'', ''covid_status'']"
    by (simp add: meta_noid_def)
  show ?thesis
    using h merge_datasets_id_column [OF h] by (simp add: c)
qed

section \<open>Failure writes nothing\<close>

text \<open>
  Claim C7. Whenever \<open>create_final_dataset\<close> returns no result, the files and the
  directories are those from before the call: nothing has been written. It returns no
  result when \<open>merge_datasets\<close> returns none, which is the case of a metadata table
  without identifier column, and when the joined table is empty.
\<close>

theorem no_result_no_output:
  "(fst (create_final_dataset e out s) = Inr None \<longrightarrow>
      files (snd (create_final_dataset e out s)) = files s
      \<and> dirs (snd (create_final_dataset e out s)) = dirs s)
   \<and> (fst (merge_datasets e s) = Inr None \<longrightarrow>
        fst (create_final_dataset e out s) = Inr None)
   \<and> (\<forall>m. fst (merge_datasets e s) = Inr (Some m) \<and> df_empty m \<longrightarrow>
        fst (create_final_dataset e out s) = Inr None)"
proof -
  obtain r s1 where m: "merge_datasets e s = (r, s1)" by force
  have f1: "files s1 = files s \<and> dirs s1 = dirs s"
    using m merge_datasets_frame [of e s] by simp
  have a: "files (snd (create_final_dataset e out s)) = files s
           \<and> dirs (snd (create_final_dataset e out s)) = dirs s"
    if none: "fst (create_final_dataset e out s) = Inr None"
  proof (cases r)
    case (Inl err)
    then show ?thesis using m none by (simp add: create_final_dataset_cases)
  next
    case (Inr mo)
    show ?thesis
    proof (cases mo)
      case None
      then show ?thesis using m f1 Inr by (simp add: create_final_dataset_cases)
    next
      case (Some merged)
      show ?thesis
      proof (cases "df_empty merged")
        case True
        then show ?thesis using m f1 Inr Some by (simp add: create_final_dataset_cases)
      next
        case False
        then have "fst (create_final_dataset e out s) \<noteq> Inr None"
          using m Inr Some
          by (simp add: create_final_dataset_cases split: prod.splits sum.splits option.splits)
        with none show ?thesis by simp
      qed
    qed
  qed
  have b: "fst (create_final_dataset e out s) = Inr None"
    if "fst (merge_datasets e s) = Inr None"
    using that m by (simp add: create_final_dataset_cases)
  have c: "fst (create_final_dataset e out s) = Inr None"
    if "fst (merge_datasets e s) = Inr (Some x) \<and> df_empty x" for x
    using that m by (simp add: create_final_dataset_cases)
  show ?thesis using a b c by blast
qed

theorem no_result_no_output_witness:
  "fst (merge_datasets env_noid state0) = Inr None
   \<and> fst (create_final_dataset env_noid (Some ''out/merged.csv'') state0) = Inr None
   \<and> files (snd (create_final_dataset env_noid (Some ''out/merged.csv'') state0))
       = files state0
   \<and> dirs (snd (create_final_dataset env_noid (Some ''out/merged.csv'') state0))
       = dirs state0"
proof -
  have m: "fst (merge_datasets env_noid state0) = Inr None" by code_simp
  note t = no_result_no_output [of env_noid "Some ''out/merged.csv''" state0]
  have r: "fst (create_final_dataset env_noid (Some ''out/merged.csv'') state0) = Inr None"
    using t m by blast
  show ?thesis using t m r by blast
qed

text \<open>
  An exception of the write step is another matter: what the step has put on disk by
  then stays there. Here \<open>to_csv\<close> fails on an output path that is a directory, after
  \<open>os.makedirs\<close> has made it.
\<close>

lemma write_failure_leaves_directory:
  "fst (create_final_dataset env_outdir (Some ''out/'') state0)
     = Inl (OSError ''IsADirectoryError'')
   \<and> dirs (snd (create_final_dataset env_outdir (Some ''out/'') state0)) = {''out''}
   \<and> files (snd (create_final_dataset env_outdir (Some ''out/'') state0)) ''out/'' = None"
  by code_simp

section \<open>The labeler and the join, row by row\<close>

lemma get_update: "get (AList.update k v r) c = (if c = k then v else get r c)"
  by (simp add: get_def update_conv')

lemma map_status_NaN: "map_status c = NaN \<longleftrightarrow> unmapped c"
  by (cases c) (force simp: unmapped_def map_of_eq_None_iff dest: map_of_SomeD split: option.splits)+

lemma map_status_cases:
  "map_status c = Num 1 \<or> map_status c = Num 0 \<or> map_status c = NaN"
  by (cases c) (auto simp: covid_mapping_def split: option.splits if_splits)

lemma create_target_rws:
  "rws (fst (create_target d s)) =
     (if ''covid_status'' \<in> set (columns d)
      then map (\<lambda>r. AList.update ''target'' (map_status (get r ''covid_status'')) r)
             (filter (\<lambda>r. \<not> unmapped (get r ''covid_status'')) (rws d))
      else map (\<lambda>r. AList.update ''target'' (Num 0) r) (rws d))"
  by (simp add: create_target_def Let_def setitem_def notna_target_def filter_map o_def
      get_update map_status_NaN)

lemma create_target_columns:
  "columns (fst (create_target d s)) =
     (if ''target'' \<in> set (columns d) then columns d else columns d @ [''target''])"
  by (simp add: create_target_def Let_def setitem_def notna_target_def)

lemma derive_features_rws:
  assumes "fst (derive_features d s) = Inr f"
  shows "\<exists>cs. rws f = map (\<lambda>r. AList.update ''num_audio_types'' (row_sum cs (AList.update ''has_all_audio'' (row_all cs r) r)) (AList.update ''has_all_audio'' (row_all cs r) r)) (rws d)
          \<or> rws f = rws d"
  using assms
  by (auto simp: derive_features_def Let_def setitem_def o_def split: if_splits)

lemma derive_features_length:
  assumes "fst (derive_features d s) = Inr f"
  shows "length (rws f) = length (rws d)"
  using derive_features_rws [OF assms] by auto

lemma derive_features_get:
  assumes "fst (derive_features d s) = Inr f"
  shows "list_all2 (\<lambda>r r'. \<forall>c. c \<noteq> ''has_all_audio'' \<and> c \<noteq> ''num_audio_types'' \<longrightarrow> get r' c = get r c) (rws d) (rws f)"
  using derive_features_rws [OF assms]
  by (auto simp: list_all2_map2 get_update intro!: list_all2_refl)

lemma derive_features_columns:
  assumes "fst (derive_features d s) = Inr f"
  shows "set (columns f) \<subseteq> set (columns d) \<union> {''has_all_audio'', ''num_audio_types''} \<and> set (columns d) \<subseteq> set (columns f)"
  using assms
  by (auto simp: derive_features_def Let_def setitem_def split: if_splits)

lemma create_final_dataset_success:
  assumes "fst (create_final_dataset e out s) = Inr (Some final)"
  shows "\<exists>merged s1. merge_datasets e s = (Inr (Some merged), s1) \<and> \<not> df_empty merged
           \<and> fst (derive_features (fst (create_target merged s1))
                     (snd (create_target merged s1))) = Inr final"
proof -
  obtain r s1 where m: "merge_datasets e s = (r, s1)" by force
  show ?thesis
    using assms m
    by (auto simp: create_final_dataset_cases
        split: sum.splits option.splits if_splits prod.splits)
qed

lemma inner_join_length:
  "length (inner_join left right lo ro) \<le> length (rws left) * length (rws right)"
proof -
  have "length (concat (map (\<lambda>l. map (g l) (filter (P l) ys)) xs)) \<le> length xs * length ys"
    for g :: "row \<Rightarrow> row \<Rightarrow> row" and P xs ys
  proof (induction xs)
    case Nil
    then show ?case by simp
  next
    case (Cons x xs)
    show ?case
      using add_mono [OF length_filter_le [of "P x" ys] Cons.IH] by simp
  qed
  then show ?thesis by (simp add: inner_join_def)
qed

lemma merge_datasets_join:
  assumes "fst (load_tables e s) = Inr (meta, audio)"
      and "fst (merge_datasets e s) = Inr (Some merged)"
  shows "\<exists>c \<in> set patient_id_columns. c \<in> set (columns meta) \<and> pd_merge meta audio c ''patient_id'' = Inr merged"
proof -
  obtain s2 where l: "load_tables e s = (Inr (meta, audio), s2)"
    using assms(1) by (cases "load_tables e s") simp
  have m: "merge_datasets e s = merge_loaded meta audio s2"
    using l by (simp add: merge_datasets_def)
  show ?thesis
    using assms(2) unfolding m
    by (auto simp: merge_loaded_def Let_def patient_id_columns_def split: option.splits sum.splits if_splits)
qed

lemma pd_merge_rws:
  "pd_merge left right lo ro = Inr merged \<Longrightarrow> rws merged = inner_join left right lo ro \<and> columns merged = merged_columns left right lo ro \<and> lo \<in> set (columns left)"
  by (auto simp: pd_merge_def split: if_splits)

lemma length_filter_compl:
  "length (filter (\<lambda>x. \<not> P x) xs) = length xs - length (filter P xs)"
  using sum_length_filter_compl [of P xs] by simp

section \<open>The number of rows\<close>

text \<open>
  Claim C1, as amended. When \<open>create_final_dataset\<close> returns a table, its number of rows
  is the number of rows of the inner join minus the number of joined rows whose status
  is no key of the mapping when the join has a status column, and the number of rows of
  the join when it has none. The join, and with it the final table, has at most as many
  rows as the product of the row counts of the metadata and inventory tables.
\<close>

theorem final_row_count:
  assumes "fst (load_tables e s) = Inr (meta, audio)"
      and "fst (merge_datasets e s) = Inr (Some merged)"
      and "fst (create_final_dataset e out s) = Inr (Some final)"
  shows "length (rws final) =
           (if ''covid_status'' \<in> set (columns merged)
            then length (rws merged)
                 - length (filter (\<lambda>r. unmapped (get r ''covid_status'')) (rws merged))
            else length (rws merged))
         \<and> length (rws merged) \<le> length (rws meta) * length (rws audio)
         \<and> length (rws final) \<le> length (rws meta) * length (rws audio)"
proof -
  obtain c where j: "pd_merge meta audio c ''patient_id'' = Inr merged"
    using merge_datasets_join [OF assms(1,2)] by blast
  have bound: "length (rws merged) \<le> length (rws meta) * length (rws audio)"
    using pd_merge_rws [OF j] inner_join_length by simp
  obtain merged' s1 where m: "merge_datasets e s = (Inr (Some merged'), s1)"
    and d: "fst (derive_features (fst (create_target merged' s1))
                   (snd (create_target merged' s1))) = Inr final"
    using create_final_dataset_success [OF assms(3)] by blast
  have eq: "merged' = merged" using m assms(2) by simp
  have len: "length (rws final) = length (rws (fst (create_target merged s1)))"
    using derive_features_length [OF d] eq by simp
  have count: "length (rws final) =
           (if ''covid_status'' \<in> set (columns merged)
            then length (rws merged)
                 - length (filter (\<lambda>r. unmapped (get r ''covid_status'')) (rws merged))
            else length (rws merged))"
    unfolding len by (simp add: create_target_rws length_filter_compl)
  have "length (rws final) \<le> length (rws merged)"
    unfolding count by simp
  with bound count show ?thesis by simp
qed

text \<open>
  The bound by the minimum of the two row counts fails: a patient folder found under two
  date folders gives two inventory rows, and the one metadata row of that patient is
  joined with both.
\<close>

theorem final_row_count_counterexample:
  "fst (load_tables env_fan state0) = Inr (meta_fan, audio_fan)
   \<and> final_count (fst (create_final_dataset env_fan None state0)) = Some 2
   \<and> \<not> 2 \<le> min (length (rws meta_fan)) (length (rws audio_fan))"
  by code_simp

theorem final_row_count_witness:
  "fst (load_tables env_fan state0) = Inr (meta_fan, audio_fan)
   \<and> final_count (fst (create_final_dataset env_fan None state0)) = Some 2
   \<and> final_count (fst (merge_datasets env_fan state0)) = Some 2
   \<and> (2::nat) \<le> length (rws meta_fan) * length (rws audio_fan)"
proof -
  have l: "fst (load_tables env_fan state0) = Inr (meta_fan, audio_fan)" by code_simp
  obtain merged where m: "fst (merge_datasets env_fan state0) = Inr (Some merged)"
    and mc: "final_count (fst (merge_datasets env_fan state0)) = Some 2"
  proof -
    have "final_count (fst (merge_datasets env_fan state0)) = Some 2" by code_simp
    then show ?thesis using that
      by (auto simp: final_count_def split: sum.splits option.splits)
  qed
  obtain final where f: "fst (create_final_dataset env_fan None state0) = Inr (Some final)"
    and fc: "final_count (fst (create_final_dataset env_fan None state0)) = Some 2"
  proof -
    have "final_count (fst (create_final_dataset env_fan None state0)) = Some 2" by code_simp
    then show ?thesis using that
      by (auto simp: final_count_def split: sum.splits option.splits)
  qed
  have "length (rws final) = 2" using f fc by (simp add: final_count_def)
  with final_row_count [OF l m f] l mc fc show ?thesis by simp
qed

section \<open>The target\<close>

lemma unmapped_iff:
  "unmapped c \<longleftrightarrow>
     c \<notin> Str ` {''positive_mild'', ''positive_moderate'', ''positive_asymp'',
                 ''healthy'', ''no_resp_illness_exposed'', ''recovered_full''}"
  by (cases c) (auto simp: unmapped_def covid_mapping_def)

lemma map_status_table:
  "map_status c =
     (if c \<in> Str ` {''positive_mild'', ''positive_moderate'', ''positive_asymp''} then Num 1
      else if c \<in> Str ` {''healthy'', ''no_resp_illness_exposed'', ''recovered_full''} then Num 0
      else NaN)"
  by (cases c) (auto simp: covid_mapping_def)

lemma derive_features_stdout:
  "\<exists>ls. stdout (snd (derive_features d s)) = stdout s @ ls"
  by (simp add: derive_features_def Let_def)

lemma save_stdout: "\<exists>ls. stdout (snd (save e out d s)) = stdout s @ ls"
  by (simp add: save_def Let_def split: option.splits prod.splits)

lemma create_target_stdout_absent:
  "''covid_status'' \<notin> set (columns d) \<Longrightarrow>
   stdout (snd (create_target d s)) =
     stdout s @ [Print ''Warning: 'covid_status' column not found. Target variable not created.'' []]"
  by (simp add: create_target_def)

lemma list_all2_map_eq:
  "list_all2 (\<lambda>m f. g f = h m \<and> Q m f) xs ys \<Longrightarrow> map g ys = map h xs"
  by (induction xs ys rule: list_all2_induct) auto

lemma list_all2_right:
  "list_all2 P xs ys \<Longrightarrow> y \<in> set ys \<Longrightarrow> \<exists>x \<in> set xs. P x y"
  by (induction xs ys rule: list_all2_induct) auto

text \<open>
  Claim C4. Let \<open>create_final_dataset\<close> return a table. When the join has a status
  column, the rows of the final table are the joined rows whose status is a key of the
  mapping, in order, each with the target that the mapping gives for its status
  (1 for \<open>positive_mild\<close>, \<open>positive_moderate\<close> and \<open>positive_asymp\<close>, 0 for \<open>healthy\<close>,
  \<open>no_resp_illness_exposed\<close> and \<open>recovered_full\<close>); the rows with any other status are
  dropped. When the join has no status column, every joined row is kept with target 0
  and the warning is printed. The other columns of a row are those of the joined row.
\<close>

theorem target_from_mapping:
  assumes "fst (merge_datasets e s) = Inr (Some merged)"
      and "fst (create_final_dataset e out s) = Inr (Some final)"
  shows "(''covid_status'' \<in> set (columns merged) \<longrightarrow>
            list_all2 (\<lambda>m f. get f ''target'' = map_status (get m ''covid_status'')
                          \<and> (\<forall>c. c \<notin> {''target'', ''has_all_audio'', ''num_audio_types''}
                                 \<longrightarrow> get f c = get m c))
              (filter (\<lambda>m. \<not> unmapped (get m ''covid_status'')) (rws merged)) (rws final))
       \<and> (''covid_status'' \<notin> set (columns merged) \<longrightarrow>
            list_all2 (\<lambda>m f. get f ''target'' = Num 0
                          \<and> (\<forall>c. c \<notin> {''target'', ''has_all_audio'', ''num_audio_types''}
                                 \<longrightarrow> get f c = get m c))
              (rws merged) (rws final)
            \<and> (\<exists>ls. stdout (snd (create_final_dataset e out s)) =
                  stdout (snd (merge_datasets e s))
                  @ Print ''Warning: 'covid_status' column not found. Target variable not created.'' []
                  # ls))
       \<and> (\<forall>c. map_status c =
             (if c \<in> Str ` {''positive_mild'', ''positive_moderate'', ''positive_asymp''}
              then Num 1
              else if c \<in> Str ` {''healthy'', ''no_resp_illness_exposed'', ''recovered_full''}
              then Num 0 else NaN))
       \<and> (\<forall>c. unmapped c \<longleftrightarrow> map_status c = NaN)"
proof -
  obtain merged' s1 where m: "merge_datasets e s = (Inr (Some merged'), s1)"
    and ne: "\<not> df_empty merged'"
    and d: "fst (derive_features (fst (create_target merged' s1))
                   (snd (create_target merged' s1))) = Inr final"
    using create_final_dataset_success [OF assms(2)] by blast
  have eq: "merged' = merged" using m assms(1) by simp
  let ?t = "fst (create_target merged s1)"
  let ?s2 = "snd (create_target merged s1)"
  have g: "list_all2 (\<lambda>r r'. \<forall>c. c \<noteq> ''has_all_audio'' \<and> c \<noteq> ''num_audio_types''
                                \<longrightarrow> get r' c = get r c) (rws ?t) (rws final)"
    using derive_features_get [OF d] eq by simp
  have present: "list_all2 (\<lambda>m f. get f ''target'' = map_status (get m ''covid_status'')
                          \<and> (\<forall>c. c \<notin> {''target'', ''has_all_audio'', ''num_audio_types''}
                                 \<longrightarrow> get f c = get m c))
              (filter (\<lambda>m. \<not> unmapped (get m ''covid_status'')) (rws merged)) (rws final)"
    if "''covid_status'' \<in> set (columns merged)"
    using g that by (simp add: create_target_rws list_all2_map1 get_update) (erule list_all2_mono, simp)
  have absent: "list_all2 (\<lambda>m f. get f ''target'' = Num 0
                          \<and> (\<forall>c. c \<notin> {''target'', ''has_all_audio'', ''num_audio_types''}
                                 \<longrightarrow> get f c = get m c))
              (rws merged) (rws final)"
    if "''covid_status'' \<notin> set (columns merged)"
    using g that by (simp add: create_target_rws list_all2_map1 get_update) (erule list_all2_mono, simp)
  have warn: "\<exists>ls. stdout (snd (create_final_dataset e out s)) =
                  stdout (snd (merge_datasets e s))
                  @ Print ''Warning: 'covid_status' column not found. Target variable not created.'' []
                  # ls"
    if a: "''covid_status'' \<notin> set (columns merged)"
  proof -
    obtain s3 where d3: "derive_features ?t ?s2 = (Inr final, s3)"
      using d eq by (cases "derive_features ?t ?s2") simp
    obtain l1 where l1: "stdout s3 = stdout ?s2 @ l1"
      using derive_features_stdout [of ?t ?s2] d3 by auto
    obtain l2 where l2: "stdout (snd (save e out final s3)) = stdout s3 @ l2"
      using save_stdout by blast
    have "snd (create_final_dataset e out s) = snd (save e out final s3)"
      using m eq ne d3
      by (simp add: create_final_dataset_cases split: prod.splits option.splits)
    then show ?thesis
      using l1 l2 m create_target_stdout_absent [OF a, of s1] by simp
  qed
  show ?thesis
    using present absent warn map_status_table map_status_NaN by blast
qed

theorem target_from_mapping_witness:
  "fst (merge_datasets env_abc state0)
     = Inr (Some (table_of (fst (merge_datasets env_abc state0))))
   \<and> fst (create_final_dataset env_abc None state0)
     = Inr (Some (table_of (fst (create_final_dataset env_abc None state0))))
   \<and> ''covid_status'' \<in> set (columns (table_of (fst (merge_datasets env_abc state0))))
   \<and> column (table_of (fst (merge_datasets env_abc state0))) ''covid_status''
       = [Str ''healthy'', Str ''positive_mild'']
   \<and> column (table_of (fst (create_final_dataset env_abc None state0))) ''target''
       = [Num 0, Num 1]
   \<and> fst (merge_datasets env_nostatus state0)
     = Inr (Some (table_of (fst (merge_datasets env_nostatus state0))))
   \<and> fst (create_final_dataset env_nostatus None state0)
     = Inr (Some (table_of (fst (create_final_dataset env_nostatus None state0))))
   \<and> ''covid_status'' \<notin> set (columns (table_of (fst (merge_datasets env_nostatus state0))))
   \<and> column (table_of (fst (create_final_dataset env_nostatus None state0))) ''target''
       = [Num 0, Num 0]"
proof -
  let ?m = "table_of (fst (merge_datasets env_abc state0))"
  let ?f = "table_of (fst (create_final_dataset env_abc None state0))"
  let ?m' = "table_of (fst (merge_datasets env_nostatus state0))"
  let ?f' = "table_of (fst (create_final_dataset env_nostatus None state0))"
  have m: "fst (merge_datasets env_abc state0) = Inr (Some ?m)" by code_simp
  have f: "fst (create_final_dataset env_abc None state0) = Inr (Some ?f)" by code_simp
  have c: "''covid_status'' \<in> set (columns ?m)" by code_simp
  have col: "column ?m ''covid_status'' = [Str ''healthy'', Str ''positive_mild'']"
    by code_simp
  have k: "map (\<lambda>m. map_status (get m ''covid_status''))
             (filter (\<lambda>m. \<not> unmapped (get m ''covid_status'')) (rws ?m)) = [Num 0, Num 1]"
    by code_simp
  have t: "column ?f ''target'' = [Num 0, Num 1]"
    using target_from_mapping [OF m f] c k list_all2_map_eq
    unfolding column_def by fastforce
  have m': "fst (merge_datasets env_nostatus state0) = Inr (Some ?m')" by code_simp
  have f': "fst (create_final_dataset env_nostatus None state0) = Inr (Some ?f')" by code_simp
  have c': "''covid_status'' \<notin> set (columns ?m')" by code_simp
  have n: "length (rws ?m') = 2" by code_simp
  have "list_all2 (\<lambda>m f. get f ''target'' = Num 0
                          \<and> (\<forall>c. c \<notin> {''target'', ''has_all_audio'', ''num_audio_types''}
                                 \<longrightarrow> get f c = get m c)) (rws ?m') (rws ?f')"
    using target_from_mapping [OF m' f'] c' by blast
  then have "map (\<lambda>f. get f ''target'') (rws ?f') = map (\<lambda>m. Num 0) (rws ?m')"
    by (rule list_all2_map_eq)
  also have "\<dots> = replicate (length (rws ?m')) (Num 0)" by (simp add: map_replicate_const)
  finally have t': "column ?f' ''target'' = [Num 0, Num 0]"
    using n by (simp add: column_def numeral_2_eq_2)
  show ?thesis using m f c col t m' f' c' t' by simp
qed

text \<open>
  Claim C6. In every row of a table that \<open>create_final_dataset\<close> returns the target is 0
  or 1, and when the table has a status column the status of the row is one of the six
  keys of the mapping.
\<close>

theorem final_target_binary:
  assumes "fst (create_final_dataset e out s) = Inr (Some final)"
  shows "\<forall>r \<in> set (rws final).
           (get r ''target'' = Num 0 \<or> get r ''target'' = Num 1)
           \<and> (''covid_status'' \<in> set (columns final) \<longrightarrow>
                get r ''covid_status''
                  \<in> Str ` {''positive_mild'', ''positive_moderate'', ''positive_asymp'',
                            ''healthy'', ''no_resp_illness_exposed'', ''recovered_full''})"
proof -
  obtain merged s1 where m: "merge_datasets e s = (Inr (Some merged), s1)"
    and d: "fst (derive_features (fst (create_target merged s1))
                   (snd (create_target merged s1))) = Inr final"
    using create_final_dataset_success [OF assms] by blast
  let ?t = "fst (create_target merged s1)"
  have g: "list_all2 (\<lambda>r r'. \<forall>c. c \<noteq> ''has_all_audio'' \<and> c \<noteq> ''num_audio_types''
                                \<longrightarrow> get r' c = get r c) (rws ?t) (rws final)"
    using derive_features_get [OF d] by simp
  have cols: "''covid_status'' \<in> set (columns final) \<longleftrightarrow> ''covid_status'' \<in> set (columns merged)"
    using derive_features_columns [OF d] by (auto simp: create_target_columns split: if_splits)
  have tprop: "(get r ''target'' = Num 0 \<or> get r ''target'' = Num 1)
           \<and> (''covid_status'' \<in> set (columns merged) \<longrightarrow> \<not> unmapped (get r ''covid_status''))"
    if rin: "r \<in> set (rws ?t)" for r
  proof -
    have ms: "map_status c = Num 0 \<or> map_status c = Num 1" if "\<not> unmapped c" for c
      using that map_status_cases [of c] map_status_NaN [of c] by blast
    show ?thesis
    proof (cases "''covid_status'' \<in> set (columns merged)")
      case True
      then obtain x where x: "r = AList.update ''target'' (map_status (get x ''covid_status'')) x"
        and u: "\<not> unmapped (get x ''covid_status'')"
        using rin by (auto simp: create_target_rws)
      show ?thesis using ms [OF u] u by (auto simp: x get_update)
    next
      case False
      then obtain x where x: "r = AList.update ''target'' (Num 0) x"
        using rin by (auto simp: create_target_rws)
      show ?thesis using False by (simp add: x get_update)
    qed
  qed
  show ?thesis
  proof
    fix r' assume "r' \<in> set (rws final)"
    then obtain r where r: "r \<in> set (rws ?t)"
      and eq: "\<forall>c. c \<noteq> ''has_all_audio'' \<and> c \<noteq> ''num_audio_types'' \<longrightarrow> get r' c = get r c"
      using list_all2_right [OF g] by blast
    have "get r' ''target'' = get r ''target''" "get r' ''covid_status'' = get r ''covid_status''"
      using eq by simp_all
    then show "(get r' ''target'' = Num 0 \<or> get r' ''target'' = Num 1)
           \<and> (''covid_status'' \<in> set (columns final) \<longrightarrow>
                get r' ''covid_status''
                  \<in> Str ` {''positive_mild'', ''positive_moderate'', ''positive_asymp'',
                            ''healthy'', ''no_resp_illness_exposed'', ''recovered_full''})"
      using tprop [OF r] cols unmapped_iff by auto
  qed
qed

theorem final_target_binary_witness:
  "fst (create_final_dataset env_abc None state0)
     = Inr (Some (table_of (fst (create_final_dataset env_abc None state0))))
   \<and> length (rws (table_of (fst (create_final_dataset env_abc None state0)))) = 2
   \<and> ''covid_status'' \<in> set (columns (table_of (fst (create_final_dataset env_abc None state0))))
   \<and> (get (hd (rws (table_of (fst (create_final_dataset env_abc None state0))))) ''target'' = Num 0
      \<or> get (hd (rws (table_of (fst (create_final_dataset env_abc None state0))))) ''target'' = Num 1)
   \<and> get (hd (rws (table_of (fst (create_final_dataset env_abc None state0))))) ''covid_status''
       \<in> Str ` {''positive_mild'', ''positive_moderate'', ''positive_asymp'',
                 ''healthy'', ''no_resp_illness_exposed'', ''recovered_full''}"
proof -
  let ?f = "table_of (fst (create_final_dataset env_abc None state0))"
  have f: "fst (create_final_dataset env_abc None state0) = Inr (Some ?f)" by code_simp
  have n: "length (rws ?f) = 2" by code_simp
  have c: "''covid_status'' \<in> set (columns ?f)" by code_simp
  have "rws ?f \<noteq> []" using n by auto
  then have h: "hd (rws ?f) \<in> set (rws ?f)" by simp
  show ?thesis
    using final_target_binary [OF f] h f n c by blast
qed

section \<open>A join without any mapped status\<close>

lemma derive_features_empty:
  assumes "rws d = []"
  shows "\<exists>f s'. derive_features d s = (Inr f, s') \<and> rws f = []
           \<and> columns f =
               (if filter (\<lambda>c. startswith c ''has_'') (columns d) \<noteq> []
                then with_column (with_column (columns d) ''has_all_audio'') ''num_audio_types''
                else columns d)"
  using assms
  by (simp add: derive_features_def Let_def setitem_def summable_def with_column_def)

lemma save_written:
  assumes "p \<noteq> []"
      and "makedirs_raises e (if dirname p \<noteq> [] then dirname p else ''.'') = None"
      and "to_csv_raises e p (to_csv d) = None"
  shows "fst (save e (Some p) d s) = None
         \<and> files (snd (save e (Some p) d s)) = (files s)(p \<mapsto> to_csv d)"
  using assms by (simp add: save_def Let_def)

lemma to_csv_empty: "rws d = [] \<Longrightarrow> to_csv d = csv_line (columns d)"
  by (simp add: to_csv_def)

lemma csv_field_plain: "plain f \<Longrightarrow> csv_field f = f"
  by (auto simp: plain_def csv_field_def list_all_iff list_ex_iff)

lemma join_fields_header:
  "fs \<noteq> [] \<Longrightarrow> join_fields fs = concat (map (\<lambda>c. c @ '','') (butlast fs)) @ last fs"
  by (induction fs rule: join_fields.induct) simp_all

lemma csv_line_plain:
  assumes "fs \<noteq> []" and "\<forall>f \<in> set fs. plain f"
  shows "csv_line fs = header_line fs"
proof -
  have "map csv_field fs = fs"
    using assms(2) by (simp add: map_idI csv_field_plain)
  then show ?thesis
    using assms(1) by (simp add: csv_line_def header_line_def join_fields_header)
qed

lemma final_columns_plain:
  assumes "\<forall>c \<in> set cs. plain c"
  shows "final_columns cs \<noteq> [] \<and> (\<forall>c \<in> set (final_columns cs). plain c)"
proof -
  have "plain ''target''" "plain ''has_all_audio''" "plain ''num_audio_types''"
    by (simp_all add: plain_def)
  then show ?thesis
    using assms by (auto simp: final_columns_def with_column_def Let_def)
qed

text \<open>
  Claim C10. When the join is not empty, has a status column and no joined row has a
  status that is a key of the mapping, \<open>create_final_dataset\<close> returns a table, and the
  table has no rows: the check for an empty join comes before the rows are filtered.
  Its columns are those of the join and the added ones. With an output path, where
  neither \<open>os.makedirs\<close> nor \<open>to_csv\<close> raises, the same table is returned and the file at
  the path holds one line and nothing else: the column names, here names that need no
  quoting, with a comma between them and a line feed at the end.
\<close>

theorem all_unmapped_header_only:
  assumes "fst (merge_datasets e s) = Inr (Some merged)"
      and "rws merged \<noteq> []"
      and "''covid_status'' \<in> set (columns merged)"
      and "\<forall>r \<in> set (rws merged). unmapped (get r ''covid_status'')"
      and "p \<noteq> []"
      and "makedirs_raises e (if dirname p \<noteq> [] then dirname p else ''.'') = None"
      and "to_csv_raises e p (header_line (final_columns (columns merged))) = None"
      and "\<forall>c \<in> set (columns merged). plain c"
  shows "\<exists>final. rws final = [] \<and> columns final = final_columns (columns merged)
           \<and> fst (create_final_dataset e None s) = Inr (Some final)
           \<and> fst (create_final_dataset e (Some p) s) = Inr (Some final)
           \<and> files (snd (create_final_dataset e (Some p) s))
               = (files s)(p \<mapsto> header_line (columns final))"
proof -
  obtain s1 where m: "merge_datasets e s = (Inr (Some merged), s1)"
    using assms(1) by (cases "merge_datasets e s") simp
  have f1: "files s1 = files s"
    using m merge_datasets_frame [of e s] by simp
  have ne: "\<not> df_empty merged"
    using assms(2,3) by (auto simp: df_empty_def)
  let ?t = "fst (create_target merged s1)"
  let ?s2 = "snd (create_target merged s1)"
  have "filter (\<lambda>r. \<not> unmapped (get r ''covid_status'')) (rws merged) = []"
    using assms(4) by (simp add: filter_empty_conv)
  then have t: "rws ?t = []"
    using assms(3) by (simp add: create_target_rws)
  have tc: "columns ?t = with_column (columns merged) ''target''"
    by (simp add: create_target_columns with_column_def)
  obtain f s3 where d: "derive_features ?t ?s2 = (Inr f, s3)" and f: "rws f = []"
    and fc: "columns f =
               (if filter (\<lambda>c. startswith c ''has_'') (columns ?t) \<noteq> []
                then with_column (with_column (columns ?t) ''has_all_audio'') ''num_audio_types''
                else columns ?t)"
    using derive_features_empty [OF t, of ?s2] by blast
  have f3: "files s3 = files s"
    using f1 d create_target_frame [of merged s1] derive_features_frame [of ?t ?s2] by simp
  have cols: "columns f = final_columns (columns merged)"
    unfolding fc tc
    by (simp add: final_columns_def Let_def filter_empty_conv list_ex_iff)
  have pl: "columns f \<noteq> [] \<and> (\<forall>c \<in> set (columns f). plain c)"
    unfolding cols by (rule final_columns_plain [OF assms(8)])
  have bytes: "to_csv f = header_line (columns f)"
    using f pl by (simp add: to_csv_empty csv_line_plain)
  have ok: "to_csv_raises e p (to_csv f) = None"
    using assms(7) by (simp add: bytes cols)
  have w: "fst (save e (Some p) f s3) = None
           \<and> files (snd (save e (Some p) f s3)) = (files s3)(p \<mapsto> to_csv f)"
    by (rule save_written [OF assms(5) assms(6) ok])
  have r0: "fst (create_final_dataset e None s) = Inr (Some f)"
    using m ne d by (simp add: create_final_dataset_cases save_def)
  obtain s4 where sv: "save e (Some p) f s3 = (None, s4)"
    and f4: "files s4 = (files s3)(p \<mapsto> to_csv f)"
    using w by (cases "save e (Some p) f s3") simp
  have r1: "fst (create_final_dataset e (Some p) s) = Inr (Some f)
            \<and> files (snd (create_final_dataset e (Some p) s)) = (files s3)(p \<mapsto> to_csv f)"
    using m ne d sv f4 by (simp add: create_final_dataset_cases)
  show ?thesis
    using f cols r0 r1 bytes f3 by auto
qed

theorem all_unmapped_header_only_witness:
  "length (rws (table_of (fst (merge_datasets env_unmapped state0)))) = 2
   \<and> fst (create_final_dataset env_unmapped (Some ''out/merged.csv'') state0)
       = Inr (Some \<lparr>columns =
                       [''id'', ''covid_status'', ''patient_id'', ''date_folder'',
                        ''has_breathing_deep'', ''has_breathing_shallow'', ''cough_heavy'',
                        ''has_cough_heavy'', ''has_cough_shallow'', ''has_counting_normal'',
                        ''has_counting_fast'', ''has_vowel_a'', ''has_vowel_e'',
                        ''has_vowel_o'', ''target'', ''has_all_audio'', ''num_audio_types''],
                     rws = []\<rparr>)
   \<and> files (snd (create_final_dataset env_unmapped (Some ''out/merged.csv'') state0))
       = [''out/merged.csv'' \<mapsto>
            ''id,covid_status,patient_id,date_folder,has_breathing_deep,has_breathing_shallow,cough_heavy,has_cough_heavy,has_cough_shallow,has_counting_normal,has_counting_fast,has_vowel_a,has_vowel_e,has_vowel_o,target,has_all_audio,num_audio_types''
            @ [CHR 0x0A]]"
proof -
  let ?m = "table_of (fst (merge_datasets env_unmapped state0))"
  let ?p = "''out/merged.csv''"
  let ?cols = "[''id'', ''covid_status'', ''patient_id'', ''date_folder'',
                ''has_breathing_deep'', ''has_breathing_shallow'', ''cough_heavy'',
                ''has_cough_heavy'', ''has_cough_shallow'', ''has_counting_normal'',
                ''has_counting_fast'', ''has_vowel_a'', ''has_vowel_e'',
                ''has_vowel_o'', ''target'', ''has_all_audio'', ''num_audio_types'']"
  have m: "fst (merge_datasets env_unmapped state0) = Inr (Some ?m)" by code_simp
  have n: "length (rws ?m) = 2" by code_simp
  then have ne: "rws ?m \<noteq> []" by auto
  have c: "''covid_status'' \<in> set (columns ?m)" by code_simp
  have u: "\<forall>r \<in> set (rws ?m). unmapped (get r ''covid_status'')" by code_simp
  have p: "?p \<noteq> []" by simp
  have mk: "makedirs_raises env_unmapped (if dirname ?p \<noteq> [] then dirname ?p else ''.'') = None"
    by (simp add: env_unmapped_def)
  have wr: "to_csv_raises env_unmapped ?p (header_line (final_columns (columns ?m))) = None"
    by (simp add: env_unmapped_def)
  have pl: "\<forall>c \<in> set (columns ?m). plain c" by code_simp
  have cs: "final_columns (columns ?m) = ?cols" by code_simp
  have hd: "header_line ?cols =
              ''id,covid_status,patient_id,date_folder,has_breathing_deep,has_breathing_shallow,cough_heavy,has_cough_heavy,has_cough_shallow,has_counting_normal,has_counting_fast,has_vowel_a,has_vowel_e,has_vowel_o,target,has_all_audio,num_audio_types''
              @ [CHR 0x0A]"
    by code_simp
  have s0: "files state0 = Map.empty" by (simp add: state0_def)
  obtain final where e: "rws final = []"
    and k: "columns final = final_columns (columns ?m)"
    and f: "fst (create_final_dataset env_unmapped (Some ?p) state0) = Inr (Some final)"
    and w: "files (snd (create_final_dataset env_unmapped (Some ?p) state0))
              = (files state0)(?p \<mapsto> header_line (columns final))"
    using all_unmapped_header_only [OF m ne c u p mk wr pl] by (elim exE conjE)
  have fin: "final = \<lparr>columns = ?cols, rws = []\<rparr>"
    using e k cs by simp
  have w': "files (snd (create_final_dataset env_unmapped (Some ?p) state0))
              = [?p \<mapsto> header_line ?cols]"
    using w by (simp only: fin s0 df.simps)
  show ?thesis
    using n f w' by (simp only: fin hd simp_thms)
qed

section \<open>Two runs\<close>

lemma same_merger_print [simp]:
  "same_merger (print ls s) (print ms t) = same_merger s t"
  by (simp add: same_merger_def)

lemma load_metadata_same:
  "same_merger s t \<Longrightarrow>
   fst (load_metadata e s) = fst (load_metadata e t)
   \<and> same_merger (snd (load_metadata e s)) (snd (load_metadata e t))"
  by (auto simp: load_metadata_def Let_def same_merger_def split: option.splits)

lemma find_audio_files_same:
  "same_merger s t \<Longrightarrow>
   fst (find_audio_files e s) = fst (find_audio_files e t)
   \<and> same_merger (snd (find_audio_files e s)) (snd (find_audio_files e t))"
  by (auto simp: find_audio_files_def Let_def same_merger_def split: option.splits)

lemma load_step_same:
  assumes "same_merger s t"
  shows "fst (case metadata_df s of None \<Rightarrow> load_metadata e s | Some d \<Rightarrow> (Inr d, s))
           = fst (case metadata_df t of None \<Rightarrow> load_metadata e t | Some d \<Rightarrow> (Inr d, t))
         \<and> same_merger
              (snd (case metadata_df s of None \<Rightarrow> load_metadata e s | Some d \<Rightarrow> (Inr d, s)))
              (snd (case metadata_df t of None \<Rightarrow> load_metadata e t | Some d \<Rightarrow> (Inr d, t)))"
proof -
  have "metadata_df s = metadata_df t" using assms by (simp add: same_merger_def)
  then show ?thesis
    using assms load_metadata_same [OF assms, of e] by (cases "metadata_df t") simp_all
qed

lemma scan_step_same:
  assumes "same_merger s t"
  shows "fst (case audio_paths_df s of None \<Rightarrow> find_audio_files e s | Some d \<Rightarrow> (Inr d, s))
           = fst (case audio_paths_df t of None \<Rightarrow> find_audio_files e t | Some d \<Rightarrow> (Inr d, t))
         \<and> same_merger
              (snd (case audio_paths_df s of None \<Rightarrow> find_audio_files e s | Some d \<Rightarrow> (Inr d, s)))
              (snd (case audio_paths_df t of None \<Rightarrow> find_audio_files e t | Some d \<Rightarrow> (Inr d, t)))"
proof -
  have "audio_paths_df s = audio_paths_df t" using assms by (simp add: same_merger_def)
  then show ?thesis
    using assms find_audio_files_same [OF assms, of e] by (cases "audio_paths_df t") simp_all
qed

lemma load_tables_same:
  assumes "same_merger s t"
  shows "fst (load_tables e s) = fst (load_tables e t)
   \<and> same_merger (snd (load_tables e s)) (snd (load_tables e t))"
proof -
  obtain r1 s1 where 1:
    "(case metadata_df s of None \<Rightarrow> load_metadata e s | Some d \<Rightarrow> (Inr d, s)) = (r1, s1)"
    by force
  obtain r1' t1 where 2:
    "(case metadata_df t of None \<Rightarrow> load_metadata e t | Some d \<Rightarrow> (Inr d, t)) = (r1', t1)"
    by force
  have e1: "r1 = r1' \<and> same_merger s1 t1"
    using load_step_same [OF assms, of e] 1 2 by simp
  then have sm1: "same_merger s1 t1" by simp
  obtain r2 s2 where 3:
    "(case audio_paths_df s1 of None \<Rightarrow> find_audio_files e s1 | Some d \<Rightarrow> (Inr d, s1))
       = (r2, s2)"
    by force
  obtain r2' t2 where 4:
    "(case audio_paths_df t1 of None \<Rightarrow> find_audio_files e t1 | Some d \<Rightarrow> (Inr d, t1))
       = (r2', t2)"
    by force
  have e2: "r2 = r2' \<and> same_merger s2 t2"
    using scan_step_same [OF sm1, of e] 3 4 by simp
  show ?thesis
    using 1 2 3 4 e1 e2
    by (auto simp: load_tables_def same_merger_def split: sum.splits option.splits)
qed

lemma merge_loaded_same:
  "same_merger s t \<Longrightarrow>
   fst (merge_loaded meta audio s) = fst (merge_loaded meta audio t)"
  by (auto simp: merge_loaded_def Let_def split: option.splits sum.splits)

lemma merge_datasets_same:
  assumes "same_merger s t"
  shows "fst (merge_datasets e s) = fst (merge_datasets e t)"
proof -
  obtain r s2 where 1: "load_tables e s = (r, s2)" by force
  obtain r' t2 where 2: "load_tables e t = (r', t2)" by force
  have "r = r' \<and> same_merger s2 t2"
    using load_tables_same [OF assms, of e] 1 2 by simp
  then show ?thesis
    using 1 2 merge_loaded_same
    by (auto simp: merge_datasets_def split: sum.splits prod.splits)
qed

lemma create_target_fst: "fst (create_target d s) = fst (create_target d t)"
  by (simp add: create_target_def Let_def)

lemma derive_features_fst: "fst (derive_features d s) = fst (derive_features d t)"
  by (simp add: derive_features_def Let_def)

lemma labeled_fst:
  "fst (derive_features (fst (create_target m s)) (snd (create_target m s)))
     = fst (derive_features (fst (create_target m t)) t)"
  using create_target_fst [of m s t]
    derive_features_fst [of "fst (create_target m t)" "snd (create_target m s)" t]
  by simp

lemma save_files:
  "\<exists>w. \<forall>s. files (snd (save e (Some p) d s))
            = (case w of None \<Rightarrow> files s | Some bytes \<Rightarrow> (files s)(p \<mapsto> bytes))"
proof -
  define dir where "dir = (if dirname p \<noteq> [] then dirname p else ''.'')"
  have sv: "save e (Some p) d s =
     (if p = [] then (None, s)
      else case makedirs_raises e dir of
             Some (err, made) \<Rightarrow> (Some err, s\<lparr>dirs := dirs s \<union> made\<rparr>)
           | None \<Rightarrow>
               (case to_csv_raises e p (to_csv d) of
                  Some (err, left) \<Rightarrow>
                    (Some err,
                     case left of
                       None \<Rightarrow> s\<lparr>dirs := insert dir (dirs s)\<rparr>
                     | Some bytes \<Rightarrow>
                         s\<lparr>dirs := insert dir (dirs s), files := (files s)(p \<mapsto> bytes)\<rparr>)
                | None \<Rightarrow>
                    (None,
                     print [Print ''Final dataset saved to: '' [Str p]]
                       (s\<lparr>dirs := insert dir (dirs s),
                          files := (files s)(p \<mapsto> to_csv d)\<rparr>))))" for s
    unfolding dir_def save_def Let_def
    by (simp split: option.splits prod.splits)
  have none: ?thesis if "\<And>s. files (snd (save e (Some p) d s)) = files s"
  proof -
    have "\<forall>s. files (snd (save e (Some p) d s))
            = (case None of None \<Rightarrow> files s | Some bytes \<Rightarrow> (files s)(p \<mapsto> bytes))"
      using that by simp
    then show ?thesis by (rule exI)
  qed
  have some: ?thesis if "\<And>s. files (snd (save e (Some p) d s)) = (files s)(p \<mapsto> b)" for b
  proof -
    have "\<forall>s. files (snd (save e (Some p) d s))
            = (case Some b of None \<Rightarrow> files s | Some bytes \<Rightarrow> (files s)(p \<mapsto> bytes))"
      using that by simp
    then show ?thesis by (rule exI)
  qed
  show ?thesis
  proof (cases "p = []")
    case True
    show ?thesis
    proof (rule none)
      fix s show "files (snd (save e (Some p) d s)) = files s"
        unfolding sv using True by simp
    qed
  next
    case False
    show ?thesis
    proof (cases "makedirs_raises e dir")
      case (Some x)
      then show ?thesis using False by (intro none) (simp add: sv split: prod.splits)
    next
      case None
      note mk = None
      show ?thesis
      proof (cases "to_csv_raises e p (to_csv d)")
        case None
        then show ?thesis using False mk by (intro some [of "to_csv d"]) (simp add: sv)
      next
        case (Some x)
        obtain err left where x: "x = (err, left)" by force
        show ?thesis
        proof (cases left)
          case None
          then show ?thesis using False mk Some x by (intro none) (simp add: sv)
        next
          case (Some b)
          then show ?thesis
            using False mk \<open>to_csv_raises e p (to_csv d) = Some x\<close> x
            by (intro some [of b]) (simp add: sv)
        qed
      qed
    qed
  qed
qed

lemma create_final_dataset_files:
  "\<exists>w. \<forall>s. same_merger s t \<longrightarrow>
          files (snd (create_final_dataset e (Some p) s))
            = (case w of None \<Rightarrow> files s | Some bytes \<Rightarrow> (files s)(p \<mapsto> bytes))"
proof -
  let ?R = "fst (merge_datasets e t)"
  have same: "\<exists>s1. merge_datasets e s = (?R, s1) \<and> files s1 = files s"
    if "same_merger s t" for s
    using merge_datasets_same [OF that, of e] merge_datasets_frame [of e s]
    by (cases "merge_datasets e s") simp
  have unchanged: ?thesis
    if u: "\<And>s. same_merger s t \<Longrightarrow>
              files (snd (create_final_dataset e (Some p) s)) = files s"
  proof -
    have "\<forall>s. same_merger s t \<longrightarrow>
            files (snd (create_final_dataset e (Some p) s))
              = (case None of None \<Rightarrow> files s | Some bytes \<Rightarrow> (files s)(p \<mapsto> bytes))"
      using u by simp
    then show ?thesis by (rule exI)
  qed
  show ?thesis
  proof (cases ?R)
    case (Inl err)
    show ?thesis
    proof (rule unchanged)
      fix s assume "same_merger s t"
      then obtain s1 where "merge_datasets e s = (?R, s1)" "files s1 = files s"
        using same by blast
      then show "files (snd (create_final_dataset e (Some p) s)) = files s"
        using Inl by (simp add: create_final_dataset_cases)
    qed
  next
    case (Inr mo)
    show ?thesis
    proof (cases mo)
      case None
      show ?thesis
      proof (rule unchanged)
        fix s assume "same_merger s t"
        then obtain s1 where "merge_datasets e s = (?R, s1)" "files s1 = files s"
          using same by blast
        then show "files (snd (create_final_dataset e (Some p) s)) = files s"
          using Inr None by (simp add: create_final_dataset_cases)
      qed
    next
      case (Some m)
      let ?D = "fst (derive_features (fst (create_target m state0)) state0)"
      have lab: "\<exists>s3. derive_features (fst (create_target m s1)) (snd (create_target m s1))
                       = (?D, s3) \<and> files s3 = files s1" for s1
        using labeled_fst [of m s1 state0] create_target_frame [of m s1]
          derive_features_frame [of "fst (create_target m s1)" "snd (create_target m s1)"]
        by (cases "derive_features (fst (create_target m s1)) (snd (create_target m s1))")
          simp
      show ?thesis
      proof (cases "df_empty m")
        case True
        show ?thesis
        proof (rule unchanged)
          fix s assume "same_merger s t"
          then obtain s1 where "merge_datasets e s = (?R, s1)" "files s1 = files s"
            using same by blast
          then show "files (snd (create_final_dataset e (Some p) s)) = files s"
            using Inr Some True by (simp add: create_final_dataset_cases)
        qed
      next
        case False
        show ?thesis
        proof (cases ?D)
          case (Inl err)
          show ?thesis
          proof (rule unchanged)
            fix s assume "same_merger s t"
            then obtain s1 where 1: "merge_datasets e s = (?R, s1)" "files s1 = files s"
              using same by blast
            obtain s3 where 3:
              "derive_features (fst (create_target m s1)) (snd (create_target m s1)) = (?D, s3)"
              "files s3 = files s1"
              using lab by blast
            show "files (snd (create_final_dataset e (Some p) s)) = files s"
              using 1 3 Inr Some False Inl by (simp add: create_final_dataset_cases)
          qed
        next
          case (Inr d)
          obtain w where w:
            "\<forall>s. files (snd (save e (Some p) d s))
               = (case w of None \<Rightarrow> files s | Some bytes \<Rightarrow> (files s)(p \<mapsto> bytes))"
            using save_files by blast
          have "\<forall>s. same_merger s t \<longrightarrow>
                  files (snd (create_final_dataset e (Some p) s))
                    = (case w of None \<Rightarrow> files s | Some bytes \<Rightarrow> (files s)(p \<mapsto> bytes))"
          proof (intro allI impI)
            fix s assume "same_merger s t"
            then obtain s1 where 1: "merge_datasets e s = (?R, s1)" "files s1 = files s"
              using same by blast
            obtain s3 where 3:
              "derive_features (fst (create_target m s1)) (snd (create_target m s1)) = (?D, s3)"
              "files s3 = files s1"
              using lab by blast
            have "snd (create_final_dataset e (Some p) s) = snd (save e (Some p) d s3)"
              using 1 3 \<open>?R = Inr mo\<close> Some False Inr
              by (simp add: create_final_dataset_cases split: prod.splits option.splits)
            moreover have "files s3 = files s"
              using 1(2) 3(2) by simp
            moreover have "files (snd (save e (Some p) d s3))
                             = (case w of None \<Rightarrow> files s3
                                | Some bytes \<Rightarrow> (files s3)(p \<mapsto> bytes))"
              by (rule w [rule_format])
            ultimately show "files (snd (create_final_dataset e (Some p) s))
                         = (case w of None \<Rightarrow> files s
                            | Some bytes \<Rightarrow> (files s)(p \<mapsto> bytes))"
              by (cases w) simp_all
          qed
          then show ?thesis by (rule exI)
        qed
      qed
    qed
  qed
qed

lemma main_state:
  "files (snd (main e s)) =
     (if csv_file e = None \<or> audio_dir e = None then files s
      else files (snd (create_final_dataset e (Some OUTPUT_PATH)
                         (init METADATA_CSV AUDIO_BASE_PATH
                            (print [Print ''=== Coswara Data Merger ==='' [],
                                    Print ''Metadata CSV: '' [Str METADATA_CSV],
                                    Print ''Audio path: '' [Str AUDIO_BASE_PATH],
                                    Print ''Output: '' [Str OUTPUT_PATH],
                                    Print [] []] s)))))"
  by (simp add: main_def Let_def split: prod.splits sum.splits option.splits)

lemma main_files:
  "files (snd (main e s)) =
     (case written e of None \<Rightarrow> files s | Some bytes \<Rightarrow> (files s)(OUTPUT_PATH \<mapsto> bytes))"
proof (cases "csv_file e = None \<or> audio_dir e = None")
  case True
  then have "files (snd (main e t)) = files t" for t
    by (simp add: main_state)
  then show ?thesis by (simp add: written_def state0_def)
next
  case False
  let ?j = "init METADATA_CSV AUDIO_BASE_PATH state0"
  obtain w where w:
    "\<forall>s. same_merger s ?j \<longrightarrow>
       files (snd (create_final_dataset e (Some OUTPUT_PATH) s))
         = (case w of None \<Rightarrow> files s | Some bytes \<Rightarrow> (files s)(OUTPUT_PATH \<mapsto> bytes))"
    using create_final_dataset_files [of "init METADATA_CSV AUDIO_BASE_PATH state0" e OUTPUT_PATH]
    by (elim exE)
  have run: "files (snd (main e t))
               = (case w of None \<Rightarrow> files t | Some bytes \<Rightarrow> (files t)(OUTPUT_PATH \<mapsto> bytes))"
    for t
  proof -
    let ?i = "init METADATA_CSV AUDIO_BASE_PATH
                (print [Print ''=== Coswara Data Merger ==='' [],
                        Print ''Metadata CSV: '' [Str METADATA_CSV],
                        Print ''Audio path: '' [Str AUDIO_BASE_PATH],
                        Print ''Output: '' [Str OUTPUT_PATH],
                        Print [] []] t)"
    have sm: "same_merger ?i ?j" by (simp add: same_merger_def init_def)
    have fi: "files ?i = files t" by (simp add: init_def)
    have "files (snd (main e t)) = files (snd (create_final_dataset e (Some OUTPUT_PATH) ?i))"
      by (simp only: main_state False if_False)
    moreover have "files (snd (create_final_dataset e (Some OUTPUT_PATH) ?i))
                     = (case w of None \<Rightarrow> files ?i
                        | Some bytes \<Rightarrow> (files ?i)(OUTPUT_PATH \<mapsto> bytes))"
      by (rule w [rule_format, OF sm])
    ultimately show ?thesis unfolding fi by simp
  qed
  have "written e = w"
    unfolding written_def run [of state0]
    by (cases w) (simp_all add: state0_def)
  then show ?thesis using run [of s] by simp
qed

text \<open>
  Claim C8. Two runs of \<open>main\<close> on the same inputs, the directory listings in the same
  order, started in any two worlds: either neither run writes a file, or both write the
  same bytes to the output path. Nothing else that the world holds (what was printed,
  what the output file held before, an older merger object) has an influence. A second
  run after a first leaves the files as the first run left them.
\<close>

theorem pipeline_deterministic:
  "(files (snd (main e s1)) = files s1 \<and> files (snd (main e s2)) = files s2
    \<or> (\<exists>bytes. files (snd (main e s1)) = (files s1)(OUTPUT_PATH \<mapsto> bytes)
               \<and> files (snd (main e s2)) = (files s2)(OUTPUT_PATH \<mapsto> bytes)))
   \<and> files (snd (main e (snd (main e s1)))) = files (snd (main e s1))"
  by (cases "written e") (auto simp: main_files)

theorem pipeline_deterministic_witness:
  "files (snd (main env_abc state0)) OUTPUT_PATH
     = files (snd (main env_abc state_used)) OUTPUT_PATH
   \<and> files (snd (main env_abc state0)) OUTPUT_PATH \<noteq> files state0 OUTPUT_PATH
   \<and> files (snd (main env_abc (snd (main env_abc state0))))
       = files (snd (main env_abc state0))"
proof -
  have a: "files (snd (main env_abc state0)) OUTPUT_PATH \<noteq> files state0 OUTPUT_PATH"
    by code_simp
  then have "files (snd (main env_abc state0)) \<noteq> files state0" by auto
  then show ?thesis
    using pipeline_deterministic [of env_abc state0 state_used] a by auto
qed

section \<open>The inventory\<close>

lemma expected_keys_distinct:
  "distinct (''patient_id'' # ''date_folder''
             # map norm_name expected_audio_types @ map has_name expected_audio_types)"
  by code_simp

lemma audio_files_keys:
  "fst ` set (audio_files p es ts)
     = has_name ` set ts \<union> norm_name ` {t \<in> set ts. path_exists es t}"
  by (induction ts) auto

lemma audio_files_has:
  assumes "distinct (map norm_name ts @ map has_name ts)" and "t \<in> set ts"
  shows "map_of (audio_files p es ts) (has_name t)
           = Some (Num (if path_exists es t then 1 else 0))"
  using assms
proof (induction ts)
  case Nil
  then show ?case by simp
next
  case (Cons a ts)
  show ?case
  proof (cases "t = a")
    case True
    then show ?thesis using Cons.prems by auto
  next
    case False
    then have t: "t \<in> set ts" using Cons.prems by simp
    have "has_name t \<in> has_name ` set ts" using t by blast
    then have "has_name t \<noteq> has_name a" "has_name t \<noteq> norm_name a"
      using Cons.prems(1) by auto
    then show ?thesis using Cons t by simp
  qed
qed

lemma audio_files_path:
  assumes "distinct (map norm_name ts @ map has_name ts)" and "t \<in> set ts"
  shows "map_of (audio_files p es ts) (norm_name t)
           = (if path_exists es t then Some (Str (path_join p t)) else None)"
  using assms
proof (induction ts)
  case Nil
  then show ?case by simp
next
  case (Cons a ts)
  show ?case
  proof (cases "t = a")
    case True
    have "norm_name a \<noteq> has_name a" using Cons.prems(1) by auto
    moreover have "norm_name a \<notin> fst ` set (audio_files p es ts)"
      using Cons.prems(1) by (auto simp: audio_files_keys)
    then have "map_of (audio_files p es ts) (norm_name a) = None"
      by (simp add: map_of_eq_None_iff)
    ultimately show ?thesis using True by simp
  next
    case False
    then have t: "t \<in> set ts" using Cons.prems by simp
    have "norm_name t \<in> norm_name ` set ts" using t by blast
    then have "norm_name t \<noteq> has_name a" "norm_name t \<noteq> norm_name a"
      using Cons.prems(1) by auto
    then show ?thesis using Cons t by simp
  qed
qed

lemma expected_distinct: "distinct (map norm_name expected_audio_types @ map has_name expected_audio_types)"
  using expected_keys_distinct by simp

lemma expected_not_ids:
  "t \<in> set expected_audio_types \<Longrightarrow>
   has_name t \<noteq> ''patient_id'' \<and> has_name t \<noteq> ''date_folder''
   \<and> norm_name t \<noteq> ''patient_id'' \<and> norm_name t \<noteq> ''date_folder''"
proof -
  assume "t \<in> set expected_audio_types"
  then have "has_name t \<in> has_name ` set expected_audio_types"
    "norm_name t \<in> norm_name ` set expected_audio_types"
    by blast+
  then show ?thesis using expected_keys_distinct by auto
qed

lemma any_flag:
  "list_ex (\<lambda>t. truthy (dict_get (audio_files p es expected_audio_types) (has_name t) (Num 0)))
     expected_audio_types
   \<longleftrightarrow> (\<exists>t \<in> set expected_audio_types. path_exists es t)"
  by (auto simp: list_ex_iff dict_get_def audio_files_has [OF expected_distinct])

lemma scan_patient_eq:
  "scan_patient dp d p es =
     (if \<exists>t \<in> set expected_audio_types. path_exists es t
      then [audio_record p d (audio_files (path_join dp p) es expected_audio_types)]
      else [])"
  using any_flag [of "path_join dp p" es] by (simp add: scan_patient_def Let_def)

lemma set_scan_patients:
  "set (scan_patients dp d ps) =
     {audio_record p d (audio_files (path_join dp p) (entries pn) expected_audio_types)
        | p pn. (p, pn) \<in> set ps
                \<and> (\<exists>t \<in> set expected_audio_types. path_exists (entries pn) t)}"
proof (induction ps)
  case Nil
  then show ?case by simp
next
  case (Cons a ps)
  obtain p pn where a: "a = (p, pn)" by (cases a)
  show ?case unfolding a by (auto simp: Cons.IH scan_patient_eq)
qed

lemma set_scan_dates:
  "set (scan_dates base ds) =
     {audio_record p d (audio_files (path_join (path_join base d) p) (entries pn)
                          expected_audio_types)
        | d dn p pn. (d, dn) \<in> set ds \<and> (p, pn) \<in> set (subdirs (entries dn))
                     \<and> (\<exists>t \<in> set expected_audio_types. path_exists (entries pn) t)}"
proof (induction ds)
  case Nil
  then show ?case by simp
next
  case (Cons a ds)
  obtain d dn where a: "a = (d, dn)" by (cases a)
  show ?case unfolding a by (auto simp: Cons.IH set_scan_patients) blast+
qed

lemma in_subdirs: "(f, n) \<in> set (subdirs es) \<longleftrightarrow> (f, n) \<in> set es \<and> isdir n"
  by (auto simp: subdirs_def)

lemma audio_record_fields:
  "map_of (audio_record p d (audio_files pp es expected_audio_types)) ''patient_id'' = Some (Str p)"
  "map_of (audio_record p d (audio_files pp es expected_audio_types)) ''date_folder'' = Some (Str d)"
  "t \<in> set expected_audio_types \<Longrightarrow>
     map_of (audio_record p d (audio_files pp es expected_audio_types)) (has_name t)
       = Some (Num (if path_exists es t then 1 else 0))"
  "t \<in> set expected_audio_types \<Longrightarrow>
     map_of (audio_record p d (audio_files pp es expected_audio_types)) (norm_name t)
       = (if path_exists es t then Some (Str (path_join pp t)) else None)"
  using expected_not_ids [of t]
  by (simp_all add: audio_record_def audio_files_has [OF expected_distinct]
      audio_files_path [OF expected_distinct])

lemma audio_record_keys:
  "fst ` set (audio_record p d (audio_files pp es expected_audio_types))
     = {''patient_id'', ''date_folder''} \<union> has_name ` set expected_audio_types
       \<union> norm_name ` {t \<in> set expected_audio_types. path_exists es t}"
  by (simp add: audio_record_def audio_files_keys)

lemma set_audio_data:
  "set (audio_data base root) =
     {audio_record p d (audio_files (path_join (path_join base d) p) (entries pn)
                          expected_audio_types)
        | d dn p pn. (d, dn) \<in> set root \<and> isdir dn \<and> (p, pn) \<in> set (entries dn) \<and> isdir pn
                     \<and> (\<exists>t \<in> set expected_audio_types. path_exists (entries pn) t)}"
  unfolding audio_data_def set_scan_dates in_subdirs by blast

lemma DataFrame_columns: "set (columns (DataFrame rs)) = (\<Union>r \<in> set rs. fst ` set r)"
  by (auto simp: DataFrame_def)

lemma DataFrame_rws [simp]: "rws (DataFrame rs) = rs"
  by (simp add: DataFrame_def)

lemma audio_data_patient_id:
  "''patient_id'' \<in> set (columns (DataFrame (audio_data base root)))
   \<longleftrightarrow> audio_data base root \<noteq> []"
proof
  assume "''patient_id'' \<in> set (columns (DataFrame (audio_data base root)))"
  then show "audio_data base root \<noteq> []" by (auto simp: DataFrame_columns)
next
  assume "audio_data base root \<noteq> []"
  then obtain r where r: "r \<in> set (audio_data base root)"
    by (cases "audio_data base root") auto
  then have "''patient_id'' \<in> fst ` set r"
    unfolding set_audio_data by (auto simp: audio_record_keys)
  with r show "''patient_id'' \<in> set (columns (DataFrame (audio_data base root)))"
    unfolding DataFrame_columns by blast
qed

lemma find_audio_files_result:
  "fst (find_audio_files e s) =
     (case audio_dir e of
        None \<Rightarrow> Inl FileNotFoundError
      | Some root \<Rightarrow>
          if audio_data (audio_base_path s) root = [] then Inl (KeyError ''patient_id'')
          else Inr (DataFrame (audio_data (audio_base_path s) root)))"
proof (cases "audio_dir e")
  case None
  then show ?thesis by (simp add: find_audio_files_def Let_def)
next
  case (Some root)
  show ?thesis
    using audio_data_patient_id [of "audio_base_path s" root] Some
    by (simp add: find_audio_files_def Let_def audio_data_def)
qed

lemma sum_flags:
  "sum_list (map (\<lambda>t. if P t then 1 else (0::int)) xs) = int (length (filter P xs))"
  by (induction xs) auto

lemma tree_ab_paths:
  "path_join (path_join ''Extracted_data'' ''20200413'') ''A'' = ''Extracted_data/20200413/A''"
  "path_join ''Extracted_data/20200413/A'' ''cough-heavy.wav''
     = ''Extracted_data/20200413/A/cough-heavy.wav''"
  by (simp_all add: path_join_def)

lemma tree_ab_records: "length (audio_data ''Extracted_data'' tree_ab) = 2"
  by code_simp

lemma expected_members: "''cough-heavy.wav'' \<in> set expected_audio_types"
    "''vowel-a.wav'' \<in> set expected_audio_types"
    by (simp_all add: expected_audio_types_def)

lemma tree_ab_folder:
  "\<exists>d dn p pn. audio_record ''A'' ''20200413''
              (audio_files ''Extracted_data/20200413/A'' [(''cough-heavy.wav'', File)] expected_audio_types) = audio_record p d
            (audio_files (path_join (path_join ''Extracted_data'' d) p) (entries pn)
               expected_audio_types)
          \<and> (d, dn) \<in> set tree_ab \<and> isdir dn \<and> (p, pn) \<in> set (entries dn) \<and> isdir pn
          \<and> (\<exists>t \<in> set expected_audio_types. path_exists (entries pn) t)"
proof -
  let ?es = "[(''cough-heavy.wav'', File)]"
  let ?date = "Dir [(''A'', Dir ?es), (''B'', Dir ?es),
                    (''Z'', Dir [(''notes.txt'', File)]), (''index.txt'', File)]"
  have 1: "(''20200413'', ?date) \<in> set tree_ab" by (simp add: tree_ab_def)
  have 2: "(''A'', Dir ?es) \<in> set (entries ?date)" by simp
  have 3: "\<exists>t \<in> set expected_audio_types. path_exists (entries (Dir ?es)) t"
    using expected_members(1) by (auto simp: path_exists_def)
  show ?thesis
    apply (rule exI [of _ "''20200413''"])
    apply (rule exI [of _ ?date])
    apply (rule exI [of _ "''A''"])
    apply (rule exI [of _ "Dir ?es"])
    using 1 2 3 by (simp add: tree_ab_paths)
qed

text \<open>
  Claim C3. The records that the scan collects are exactly the records of the patient
  folders, that is of the directories inside the directories of the root, in which at
  least one of the nine expected files exists. The record of a folder has the folder
  name as patient identifier, the name of the date folder, for each of the nine expected
  files the presence flag, 1 when the file exists and 0 when not, and the path of a file
  exactly when the file exists; it has no other field. \<open>find_audio_files\<close> returns the
  table of these records; when there is none, its last print raises \<open>KeyError\<close>.
\<close>

theorem inventory_records:
  "set (audio_data base root) =
     {audio_record p d (audio_files (path_join (path_join base d) p) (entries pn)
                          expected_audio_types)
        | d dn p pn. (d, dn) \<in> set root \<and> isdir dn \<and> (p, pn) \<in> set (entries dn) \<and> isdir pn
                     \<and> (\<exists>t \<in> set expected_audio_types. path_exists (entries pn) t)}
   \<and> map_of (audio_record p' d' (audio_files pp es expected_audio_types)) ''patient_id''
       = Some (Str p')
   \<and> map_of (audio_record p' d' (audio_files pp es expected_audio_types)) ''date_folder''
       = Some (Str d')
   \<and> (\<forall>t \<in> set expected_audio_types.
         map_of (audio_record p' d' (audio_files pp es expected_audio_types)) (has_name t)
           = Some (Num (if path_exists es t then 1 else 0))
         \<and> map_of (audio_record p' d' (audio_files pp es expected_audio_types)) (norm_name t)
           = (if path_exists es t then Some (Str (path_join pp t)) else None))
   \<and> fst ` set (audio_record p' d' (audio_files pp es expected_audio_types))
       = {''patient_id'', ''date_folder''} \<union> has_name ` set expected_audio_types
         \<union> norm_name ` {t \<in> set expected_audio_types. path_exists es t}
   \<and> fst (find_audio_files e s) =
       (case audio_dir e of
          None \<Rightarrow> Inl FileNotFoundError
        | Some root \<Rightarrow>
            if audio_data (audio_base_path s) root = [] then Inl (KeyError ''patient_id'')
            else Inr (DataFrame (audio_data (audio_base_path s) root)))"
  by (simp add: set_audio_data audio_record_fields audio_record_keys find_audio_files_result)

theorem inventory_records_witness:
  "audio_record ''A'' ''20200413''
       (audio_files ''Extracted_data/20200413/A'' [(''cough-heavy.wav'', File)]
          expected_audio_types)
     \<in> set (audio_data ''Extracted_data'' tree_ab)
   \<and> length (audio_data ''Extracted_data'' tree_ab) = 2
   \<and> map_of (audio_record ''A'' ''20200413''
               (audio_files ''Extracted_data/20200413/A'' [(''cough-heavy.wav'', File)]
                  expected_audio_types)) ''patient_id'' = Some (Str ''A'')
   \<and> map_of (audio_record ''A'' ''20200413''
               (audio_files ''Extracted_data/20200413/A'' [(''cough-heavy.wav'', File)]
                  expected_audio_types)) (has_name ''cough-heavy.wav'') = Some (Num 1)
   \<and> map_of (audio_record ''A'' ''20200413''
               (audio_files ''Extracted_data/20200413/A'' [(''cough-heavy.wav'', File)]
                  expected_audio_types)) (norm_name ''cough-heavy.wav'')
       = Some (Str ''Extracted_data/20200413/A/cough-heavy.wav'')
   \<and> map_of (audio_record ''A'' ''20200413''
               (audio_files ''Extracted_data/20200413/A'' [(''cough-heavy.wav'', File)]
                  expected_audio_types)) (has_name ''vowel-a.wav'') = Some (Num 0)
   \<and> map_of (audio_record ''A'' ''20200413''
               (audio_files ''Extracted_data/20200413/A'' [(''cough-heavy.wav'', File)]
                  expected_audio_types)) (norm_name ''vowel-a.wav'') = None"
proof -
  let ?es = "[(''cough-heavy.wav'', File)]"
  let ?r = "audio_record ''A'' ''20200413''
              (audio_files ''Extracted_data/20200413/A'' ?es expected_audio_types)"
  note t = inventory_records [of "''Extracted_data''" tree_ab "''A''" "''20200413''"
      "''Extracted_data/20200413/A''" ?es]
  note t1 = t [THEN conjunct1, THEN equalityD2]
  note t2 = t [THEN conjunct2, THEN conjunct1]
  note t4 = t [THEN conjunct2, THEN conjunct2, THEN conjunct2, THEN conjunct1]
  have pc: "path_exists ?es ''cough-heavy.wav''" and pv: "\<not> path_exists ?es ''vowel-a.wav''"
    by (simp_all add: path_exists_def)
  have mem: "?r \<in> set (audio_data ''Extracted_data'' tree_ab)"
    by (rule subsetD [OF t1], rule CollectI) (rule tree_ab_folder)
  have hc: "map_of ?r (has_name ''cough-heavy.wav'') = Some (Num 1)"
    and nc: "map_of ?r (norm_name ''cough-heavy.wav'')
               = Some (Str ''Extracted_data/20200413/A/cough-heavy.wav'')"
    using bspec [OF t4 expected_members(1)] pc tree_ab_paths(2) by simp_all
  have hv: "map_of ?r (has_name ''vowel-a.wav'') = Some (Num 0)"
    and nv: "map_of ?r (norm_name ''vowel-a.wav'') = None"
    using bspec [OF t4 expected_members(2)] pv by simp_all
  show ?thesis
    by (intro conjI) (rule mem tree_ab_records t2 hc nc hv nv)+
qed

text \<open>
  Claim C9. Every record of a table that \<open>find_audio_files\<close> returns defines each of the
  nine presence flags, whose names start with \<open>has_\<close> and are columns of the table, with
  the value 0 or 1; it has the path field of a recording exactly when the flag of that
  recording is 1; and the nine flags of a record add up to a number from 1 to 9.
\<close>

theorem inventory_flags:
  assumes "fst (find_audio_files e s) = Inr inventory" and "r \<in> set (rws inventory)"
  shows "(\<forall>t \<in> set expected_audio_types.
            (map_of r (has_name t) = Some (Num 0) \<or> map_of r (has_name t) = Some (Num 1))
            \<and> (map_of r (norm_name t) \<noteq> None \<longleftrightarrow> map_of r (has_name t) = Some (Num 1))
            \<and> has_name t \<in> set (columns inventory)
            \<and> prefix ''has_'' (has_name t))
         \<and> length expected_audio_types = 9 \<and> distinct (map has_name expected_audio_types)
         \<and> 1 \<le> sum_list (map (\<lambda>t. number (get r (has_name t))) expected_audio_types)
         \<and> sum_list (map (\<lambda>t. number (get r (has_name t))) expected_audio_types) \<le> 9"
proof -
  obtain root where inv: "inventory = DataFrame (audio_data (audio_base_path s) root)"
    using assms(1) unfolding find_audio_files_result
    by (auto split: option.splits if_splits)
  then have rin: "r \<in> set (audio_data (audio_base_path s) root)" using assms(2) by simp
  then obtain p d pp es where r: "r = audio_record p d (audio_files pp es expected_audio_types)"
    and ex: "\<exists>t \<in> set expected_audio_types. path_exists es t"
    unfolding set_audio_data by blast
  have flags: "map_of r (has_name t) = Some (Num (if path_exists es t then 1 else 0))"
    and paths: "map_of r (norm_name t) = (if path_exists es t then Some (Str (path_join pp t)) else None)"
    if "t \<in> set expected_audio_types" for t
    using that by (simp_all add: r audio_record_fields)
  have cols: "has_name t \<in> set (columns inventory)" if "t \<in> set expected_audio_types" for t
  proof -
    have "has_name t \<in> fst ` set r" using that by (auto simp: r audio_record_keys)
    then show ?thesis using rin unfolding inv DataFrame_columns by blast
  qed
  have n: "length expected_audio_types = 9" by (simp add: expected_audio_types_def)
  have m: "map (\<lambda>t. number (get r (has_name t))) expected_audio_types
        = map (\<lambda>t. if path_exists es t then 1 else 0) expected_audio_types"
    by (rule map_cong) (simp_all add: get_def flags)
  have s: "sum_list (map (\<lambda>t. number (get r (has_name t))) expected_audio_types)
        = int (length (filter (path_exists es) expected_audio_types))"
    unfolding m by (rule sum_flags)
  have "filter (path_exists es) expected_audio_types \<noteq> []"
    using ex by (simp add: filter_empty_conv)
  then have lo: "1 \<le> length (filter (path_exists es) expected_audio_types)"
    by (cases "filter (path_exists es) expected_audio_types") simp_all
  have hi: "length (filter (path_exists es) expected_audio_types) \<le> 9"
    using length_filter_le [of "path_exists es" expected_audio_types] n by simp
  have d: "distinct (map has_name expected_audio_types)" using expected_distinct by simp
  show ?thesis
    using flags paths cols n d s lo hi by (auto simp: has_name_def)
qed

theorem inventory_flags_witness:
  "fst (find_audio_files env_abc state0)
     = Inr (DataFrame (audio_data ''Extracted_data'' tree_ab))
   \<and> length (rws (DataFrame (audio_data ''Extracted_data'' tree_ab))) = 2
   \<and> (map_of (hd (rws (DataFrame (audio_data ''Extracted_data'' tree_ab))))
          (has_name ''vowel-a.wav'') = Some (Num 0)
      \<or> map_of (hd (rws (DataFrame (audio_data ''Extracted_data'' tree_ab))))
          (has_name ''vowel-a.wav'') = Some (Num 1))
   \<and> has_name ''vowel-a.wav'' \<in> set (columns (DataFrame (audio_data ''Extracted_data'' tree_ab)))
   \<and> 1 \<le> sum_list (map (\<lambda>t. number (get (hd (rws (DataFrame (audio_data ''Extracted_data''
                                                               tree_ab))))
                                       (has_name t))) expected_audio_types)
   \<and> sum_list (map (\<lambda>t. number (get (hd (rws (DataFrame (audio_data ''Extracted_data''
                                                            tree_ab))))
                                    (has_name t))) expected_audio_types) \<le> 9"
proof -
  let ?inv = "DataFrame (audio_data ''Extracted_data'' tree_ab)"
  have f: "fst (find_audio_files env_abc state0) = Inr ?inv" by code_simp
  have n: "length (rws ?inv) = 2" by code_simp
  then have "rws ?inv \<noteq> []" by auto
  then have h: "hd (rws ?inv) \<in> set (rws ?inv)" by (rule hd_in_set)
  note t = inventory_flags [OF f h]
  note ta = bspec [OF t [THEN conjunct1] expected_members(2)]
  note t3 = t [THEN conjunct2, THEN conjunct2, THEN conjunct2]
  show ?thesis
    by (intro conjI) (rule f n ta [THEN conjunct1]
        ta [THEN conjunct2, THEN conjunct2, THEN conjunct1] t3 [THEN conjunct1]
        t3 [THEN conjunct2])+
qed

section \<open>The completeness columns\<close>


























end
